theory Spec2Isabelle
  imports Main "HOL-Library.Word"
begin

unbundle bit_operations_syntax

section \<open>The NAS codec of gnbsim (encoding/nas/nas.go)\<close>

text \<open>
  The embedding follows \<^verbatim>\<open>src/encoding/nas/nas.go\<close> function by function.

  \<^item> A Go run-time panic (index out of range, slice bounds out of range) is the left
    injection of a sum; a normal return is the right injection. None of the functions of
    the codec returns a Go \<^verbatim>\<open>error\<close>, and none recovers from a panic: a panic ends the
    call of \<^verbatim>\<open>Decode\<close>, and what is left of the context at that moment is not part
    of the result.
  \<^item> The bytes that the decoder can reach live in one store \<open>mem\<close>. The array that backs
    the PDU under decode is the tail of the store and ends where the capacity of the
    caller's slice ends. A Go slice is its header: the position \<open>ptr\<close> of its first
    byte in the store and its length \<open>len\<close>; its capacity is what is left of the store
    behind \<open>ptr\<close>. All slices that the decoder cuts are cut from the PDU with two-index
    slice expressions, so they all share that end.
  \<^item> Diagnostic printing (\<^verbatim>\<open>dprint\<close>, \<^verbatim>\<open>dprinti\<close>) writes to standard output
    only and is left out; the updates of \<^verbatim>\<open>ue.indent\<close> are kept. The field is
    unexported, starts at zero and is only decremented after an increment, so it is a
    natural number.
\<close>

subsection \<open>Bytes, panics, slices\<close>

type_synonym byte = "8 word"

text \<open>
  The run-time errors of an index expression and of a slice expression, and a panic
  raised inside a library.
\<close>

datatype panic = IndexOutOfRange | SliceBoundsOutOfRange | LibraryPanic

record slice =
  ptr :: nat
  len :: nat

text \<open>\<^verbatim>\<open>cap(s)\<close>, and the bytes seen through a slice.\<close>

definition cap :: "byte list \<Rightarrow> slice \<Rightarrow> nat" where
  "cap mem s = length mem - ptr s"

definition bytes :: "byte list \<Rightarrow> slice \<Rightarrow> byte list" where
  "bytes mem s = take (len s) (drop (ptr s) mem)"

text \<open>A header describes a Go slice of the store when its bytes lie inside the store.\<close>

definition valid :: "byte list \<Rightarrow> slice \<Rightarrow> bool" where
  "valid mem s = (ptr s + len s \<le> length mem)"

text \<open>\<^verbatim>\<open>s[i]\<close>: the index is checked against the length.\<close>

definition index :: "byte list \<Rightarrow> slice \<Rightarrow> nat \<Rightarrow> panic + byte" where
  "index mem s i = (if i < len s then Inr (mem ! (ptr s + i)) else Inl IndexOutOfRange)"

text \<open>\<^verbatim>\<open>s[:n]\<close>: the upper bound is checked against the capacity, not the length.\<close>

definition slice_to :: "byte list \<Rightarrow> slice \<Rightarrow> nat \<Rightarrow> panic + slice" where
  "slice_to mem s n =
     (if n \<le> cap mem s then Inr \<lparr>ptr = ptr s, len = n\<rparr> else Inl SliceBoundsOutOfRange)"

text \<open>\<^verbatim>\<open>s[n:]\<close>: the upper bound defaults to the length, so \<open>n\<close> is checked against it.\<close>

definition slice_from :: "slice \<Rightarrow> nat \<Rightarrow> panic + slice" where
  "slice_from s n =
     (if n \<le> len s then Inr \<lparr>ptr = ptr s + n, len = len s - n\<rparr>
      else Inl SliceBoundsOutOfRange)"

text \<open>\<^verbatim>\<open>s[a:b]\<close>.\<close>

definition slice_range :: "byte list \<Rightarrow> slice \<Rightarrow> nat \<Rightarrow> nat \<Rightarrow> panic + slice" where
  "slice_range mem s a b =
     (if a \<le> b \<and> b \<le> cap mem s then Inr \<lparr>ptr = ptr s + a, len = b - a\<rparr>
      else Inl SliceBoundsOutOfRange)"

text \<open>
  \<^verbatim>\<open>[]byte{}\<close>: a slice of length and capacity zero. Its header points behind the
  last byte of the store.
\<close>

definition empty_slice :: "byte list \<Rightarrow> slice" where
  "empty_slice mem = \<lparr>ptr = length mem, len = 0\<rparr>"

text \<open>
  A slice-typed field is \<open>None\<close> while it is \<^verbatim>\<open>nil\<close>. The bytes of a slice value, for
  the operations that do not tell \<^verbatim>\<open>nil\<close> from empty (\<^verbatim>\<open>range\<close>, \<^verbatim>\<open>len\<close>, indexing,
  copying).
\<close>

definition elems :: "byte list \<Rightarrow> slice option \<Rightarrow> byte list" where
  "elems mem f = (case f of None \<Rightarrow> [] | Some s \<Rightarrow> bytes mem s)"

subsection \<open>The UE context\<close>

text \<open>
  \<^verbatim>\<open>type AuthParam struct\<close> and \<^verbatim>\<open>type UE struct\<close>. The five unexported slices are
  written by the decoder with slices of the PDU, so they are headers into the store.
  \<^verbatim>\<open>RESstar\<close> is only ever assigned a freshly allocated result (or set by the caller) and
  only read element by element: it is kept as its bytes. The field
  \<^verbatim>\<open>state.securityHeaderParsed\<close> of the inner struct is a field of the record.
\<close>

record AuthParam =
  K :: string
  OPc :: string
  rand :: "slice option"
  autn :: "slice option"
  seqxorak :: "slice option"
  amf :: "slice option"
  mac :: "slice option"
  RESstar :: "byte list"

record UE =
  MSIN :: string
  MCC :: int
  MNC :: int
  RoutingIndicator :: "16 word"
  ProtectionScheme :: string
  AuthParam :: AuthParam
  securityHeaderParsed :: bool
  indent :: nat

subsection \<open>Constants\<close>

text \<open>The constants are untyped integer constants in Go; a use as \<^verbatim>\<open>uint8\<close> converts.\<close>

definition EPD5GSMobilityManagement :: int where
  "EPD5GSMobilityManagement = 0x7e"

definition SecurityHeaderTypePlain :: int where
  "SecurityHeaderTypePlain = 0"

definition MessageTypeRegistrationRequest :: int where
  "MessageTypeRegistrationRequest = 0x41"

definition MessageTypeAuthenticationRequest :: int where
  "MessageTypeAuthenticationRequest = 0x56"

definition MessageTypeAuthenticationResponse :: int where
  "MessageTypeAuthenticationResponse = 0x57"

definition MessageTypeSecurityModeCommand :: int where
  "MessageTypeSecurityModeCommand = 0x5d"

definition ieiIMEISVRequest :: int where
  "ieiIMEISVRequest = 0xe"

definition iei5GMMCapability :: int where
  "iei5GMMCapability = 0x10"

definition ieiAuthParamAUTN :: int where
  "ieiAuthParamAUTN = 0x20"

definition ieiAuthParamRAND :: int where
  "ieiAuthParamRAND = 0x21"

definition ieiAuthParamRES :: int where
  "ieiAuthParamRES = 0x2d"

definition ieiUESecurityCapability :: int where
  "ieiUESecurityCapability = 0x2e"

definition ieiAdditional5GSecurityInformation :: int where
  "ieiAdditional5GSecurityInformation = 0x36"

definition ieiNonSupported :: int where
  "ieiNonSupported = 0xff"

text \<open>
  \<^verbatim>\<open>var ieStr = map[int]string{...}\<close>; reading a key that is not in a Go map gives the
  empty string.
\<close>

definition ieStr_entries :: "(int \<times> string) list" where
  "ieStr_entries =
     [(ieiIMEISVRequest, ''IMEISV Request IE''),
      (iei5GMMCapability, ''5G MM Capability IE''),
      (ieiAuthParamAUTN, ''Authentication Parameter AUTN IE''),
      (ieiAuthParamRAND, ''Authentication Parameter RAND IE''),
      (ieiAuthParamRES, ''Authentication response parameter IE''),
      (ieiUESecurityCapability, ''UE Security Capability IE''),
      (ieiAdditional5GSecurityInformation, ''Additional 5G Security Information IE''),
      (ieiNonSupported, ''Non Supported IE'')]"

definition ieStr :: "int \<Rightarrow> string" where
  "ieStr i = (case map_of ieStr_entries i of None \<Rightarrow> [] | Some s \<Rightarrow> s)"

subsection \<open>Decoders of single fields and information elements\<close>

text \<open>
  Each decoder is a method on \<^verbatim>\<open>*UE\<close> that advances the caller's slice through
  \<^verbatim>\<open>pdu *[]byte\<close>: it gets the store, the context and the slice, and returns the
  context and the slice.
\<close>

text \<open>\<^verbatim>\<open>decIMEISVRequest\<close>: reads one byte.\<close>

definition decIMEISVRequest :: "byte list \<Rightarrow> UE \<Rightarrow> slice \<Rightarrow> panic + (UE \<times> slice)" where
  "decIMEISVRequest mem ue pdu =
     (case index mem pdu 0 of Inl e \<Rightarrow> Inl e | Inr val \<Rightarrow>
      case slice_from pdu 1 of Inl e \<Rightarrow> Inl e | Inr pdu1 \<Rightarrow>
      Inr (ue, pdu1))"

text \<open>\<^verbatim>\<open>decngKSI\<close>: reads one byte.\<close>

definition decngKSI :: "byte list \<Rightarrow> UE \<Rightarrow> slice \<Rightarrow> panic + (UE \<times> slice)" where
  "decngKSI mem ue pdu =
     (case index mem pdu 0 of Inl e \<Rightarrow> Inl e | Inr ksi \<Rightarrow>
      case slice_from pdu 1 of Inl e \<Rightarrow> Inl e | Inr pdu1 \<Rightarrow>
      Inr (ue, pdu1))"

text \<open>\<^verbatim>\<open>decNASSecurityAlgorithms\<close>: \<^verbatim>\<open>alg := (*pdu)[:1]\<close>, then \<^verbatim>\<open>*pdu = (*pdu)[1:]\<close>.\<close>

definition decNASSecurityAlgorithms ::
  "byte list \<Rightarrow> UE \<Rightarrow> slice \<Rightarrow> panic + (UE \<times> slice)" where
  "decNASSecurityAlgorithms mem ue pdu =
     (case slice_to mem pdu 1 of Inl e \<Rightarrow> Inl e | Inr alg \<Rightarrow>
      case slice_from pdu 1 of Inl e \<Rightarrow> Inl e | Inr pdu1 \<Rightarrow>
      Inr (ue, pdu1))"

text \<open>\<^verbatim>\<open>decABBA\<close>: a length octet, then that many bytes.\<close>

definition decABBA :: "byte list \<Rightarrow> UE \<Rightarrow> slice \<Rightarrow> panic + (UE \<times> slice)" where
  "decABBA mem ue pdu =
     (case index mem pdu 0 of Inl e \<Rightarrow> Inl e | Inr l \<Rightarrow>
      case slice_from pdu 1 of Inl e \<Rightarrow> Inl e | Inr pdu1 \<Rightarrow>
      case slice_to mem pdu1 (unat l) of Inl e \<Rightarrow> Inl e | Inr abba \<Rightarrow>
      case slice_from pdu1 (unat l) of Inl e \<Rightarrow> Inl e | Inr pdu2 \<Rightarrow>
      Inr (ue, pdu2))"

text \<open>\<^verbatim>\<open>decUESecurityCapability\<close>: a length octet, then that many bytes.\<close>

definition decUESecurityCapability ::
  "byte list \<Rightarrow> UE \<Rightarrow> slice \<Rightarrow> panic + (UE \<times> slice)" where
  "decUESecurityCapability mem ue pdu =
     (case index mem pdu 0 of Inl e \<Rightarrow> Inl e | Inr l \<Rightarrow>
      case slice_from pdu 1 of Inl e \<Rightarrow> Inl e | Inr pdu1 \<Rightarrow>
      case slice_to mem pdu1 (unat l) of Inl e \<Rightarrow> Inl e | Inr cap' \<Rightarrow>
      case slice_from pdu1 (unat l) of Inl e \<Rightarrow> Inl e | Inr pdu2 \<Rightarrow>
      Inr (ue, pdu2))"

text \<open>
  \<^verbatim>\<open>decAuthParamAUTN\<close>: a length octet, \<^verbatim>\<open>autn = (*pdu)[:autnlen]\<close>, the slice
  advances by \<^verbatim>\<open>autnlen\<close>, and then \<^verbatim>\<open>autn[:6]\<close>, \<^verbatim>\<open>autn[6:8]\<close> and \<^verbatim>\<open>autn[8:16]\<close>
  are cut from \<^verbatim>\<open>autn\<close>, whatever its length is.
\<close>

definition decAuthParamAUTN :: "byte list \<Rightarrow> UE \<Rightarrow> slice \<Rightarrow> panic + (UE \<times> slice)" where
  "decAuthParamAUTN mem ue pdu =
     (case index mem pdu 0 of Inl e \<Rightarrow> Inl e | Inr l \<Rightarrow>
      case slice_from pdu 1 of Inl e \<Rightarrow> Inl e | Inr pdu1 \<Rightarrow>
      case slice_to mem pdu1 (unat l) of Inl e \<Rightarrow> Inl e | Inr a \<Rightarrow>
      case slice_from pdu1 (unat l) of Inl e \<Rightarrow> Inl e | Inr pdu2 \<Rightarrow>
      case slice_to mem a 6 of Inl e \<Rightarrow> Inl e | Inr s \<Rightarrow>
      case slice_range mem a 6 8 of Inl e \<Rightarrow> Inl e | Inr f \<Rightarrow>
      case slice_range mem a 8 16 of Inl e \<Rightarrow> Inl e | Inr m \<Rightarrow>
      Inr (ue\<lparr>AuthParam := (AuthParam ue)\<lparr>autn := Some a, seqxorak := Some s,
                                              amf := Some f, mac := Some m\<rparr>\<rparr>,
           pdu2))"

text \<open>\<^verbatim>\<open>decAuthParamRAND\<close>: \<^verbatim>\<open>rand = (*pdu)[:16]\<close>, then \<^verbatim>\<open>*pdu = (*pdu)[16:]\<close>.\<close>

definition decAuthParamRAND :: "byte list \<Rightarrow> UE \<Rightarrow> slice \<Rightarrow> panic + (UE \<times> slice)" where
  "decAuthParamRAND mem ue pdu =
     (case slice_to mem pdu 16 of Inl e \<Rightarrow> Inl e | Inr r \<Rightarrow>
      case slice_from pdu 16 of Inl e \<Rightarrow> Inl e | Inr pdu1 \<Rightarrow>
      Inr (ue\<lparr>AuthParam := (AuthParam ue)\<lparr>rand := Some r\<rparr>\<rparr>, pdu1))"

subsection \<open>The loop over the information elements\<close>

text \<open>
  One pass through the body of the \<^verbatim>\<open>for len(*pdu) > 0\<close> loop of
  \<^verbatim>\<open>decInformationElement\<close>. \<^verbatim>\<open>(*pdu)[0] &= 0x0f\<close> writes to the store, so the
  store is returned too. The \<^verbatim>\<open>switch\<close> has four cases and a \<^verbatim>\<open>default\<close>.
\<close>

definition decInformationElement_body ::
  "byte list \<Rightarrow> UE \<Rightarrow> slice \<Rightarrow> panic + (byte list \<times> UE \<times> slice)" where
  "decInformationElement_body mem ue pdu =
     (case index mem pdu 0 of Inl e \<Rightarrow> Inl e | Inr b \<Rightarrow>
      case (if uint b AND 0x80 = 0x80
            then Inr (drop_bit 4 (uint b), list_update mem (ptr pdu) (mem ! ptr pdu AND 0x0f), pdu)
            else (case slice_from pdu 1 of Inl e \<Rightarrow> Inl e
                  | Inr pdu1 \<Rightarrow> Inr (uint b, mem, pdu1))) of
        Inl e \<Rightarrow> Inl e
      | Inr (iei0, mem1, pdu1) \<Rightarrow>
          let iei = (if ieStr iei0 = [] then 0xff else iei0) in
          if iei = ieiIMEISVRequest then
            (case decIMEISVRequest mem1 ue pdu1 of Inl e \<Rightarrow> Inl e
             | Inr (ue', pdu') \<Rightarrow> Inr (mem1, ue', pdu'))
          else if iei = ieiAuthParamAUTN then
            (case decAuthParamAUTN mem1 ue pdu1 of Inl e \<Rightarrow> Inl e
             | Inr (ue', pdu') \<Rightarrow> Inr (mem1, ue', pdu'))
          else if iei = ieiAuthParamRAND then
            (case decAuthParamRAND mem1 ue pdu1 of Inl e \<Rightarrow> Inl e
             | Inr (ue', pdu') \<Rightarrow> Inr (mem1, ue', pdu'))
          else if iei = ieiAdditional5GSecurityInformation then Inr (mem1, ue, pdu1)
          else Inr (mem1, ue, empty_slice mem1))"

text \<open>
  Every decoder that the loop calls leaves a strictly shorter slice when it returns, and a
  compact identifier is a number below 16, so it is none of the plain identifiers.
\<close>

lemma decIMEISVRequest_len:
  "decIMEISVRequest mem ue pdu = Inr (ue', pdu') \<Longrightarrow> len pdu' < len pdu"
  by (auto simp: decIMEISVRequest_def index_def slice_from_def split: sum.splits if_splits)

lemma decAuthParamAUTN_len:
  "decAuthParamAUTN mem ue pdu = Inr (ue', pdu') \<Longrightarrow> len pdu' < len pdu"
  by (auto simp: decAuthParamAUTN_def index_def slice_from_def split: sum.splits if_splits)

lemma decAuthParamRAND_len:
  "decAuthParamRAND mem ue pdu = Inr (ue', pdu') \<Longrightarrow> len pdu' < len pdu"
  by (auto simp: decAuthParamRAND_def slice_from_def split: sum.splits if_splits)

lemma compact_identifier_bound: "drop_bit 4 (uint (b :: byte)) < 16"
proof -
  have "uint b < 2 ^ 8"
    using uint_bounded [of b] by simp
  then show ?thesis
    by (simp add: drop_bit_eq_div)
qed

lemma decInformationElement_body_len:
  assumes "decInformationElement_body mem ue pdu = Inr (mem', ue', pdu')" and "0 < len pdu"
  shows "len pdu' < len pdu"
proof -
  obtain b where b: "index mem pdu 0 = Inr b"
    using assms(2) by (simp add: index_def)
  show ?thesis
  proof (cases "uint b AND 0x80 = 0x80")
    case True
    have "drop_bit 4 (uint b) \<noteq> 0x36" "drop_bit 4 (uint b) \<noteq> 0x20"
      "drop_bit 4 (uint b) \<noteq> 0x21"
      using compact_identifier_bound [of b] by auto
    with True assms b show ?thesis
      by (auto simp: decInformationElement_body_def Let_def empty_slice_def
            ieiIMEISVRequest_def ieiAuthParamAUTN_def ieiAuthParamRAND_def
            ieiAdditional5GSecurityInformation_def
          split: sum.splits if_splits dest: decIMEISVRequest_len)
  next
    case False
    from assms(2) obtain p1 where "slice_from pdu 1 = Inr p1" and "len p1 < len pdu"
      by (auto simp: slice_from_def)
    with False assms b show ?thesis
      by (auto simp: decInformationElement_body_def Let_def empty_slice_def
          split: sum.splits if_splits
          dest!: decIMEISVRequest_len decAuthParamAUTN_len decAuthParamRAND_len)
  qed
qed

text \<open>\<^verbatim>\<open>decInformationElement\<close>: the loop runs while the slice is not empty.\<close>

function decInformationElement ::
  "byte list \<Rightarrow> UE \<Rightarrow> slice \<Rightarrow> panic + (byte list \<times> UE \<times> slice)" where
  "decInformationElement mem ue pdu =
     (if len pdu > 0 then
        (case decInformationElement_body mem ue pdu of Inl e \<Rightarrow> Inl e
         | Inr (mem', ue', pdu') \<Rightarrow> decInformationElement mem' ue' pdu')
      else Inr (mem, ue, pdu))"
  by pat_completeness auto
termination
  by (relation "measure (\<lambda>(mem, ue, pdu). len pdu)")
    (auto dest: decInformationElement_body_len)

declare decInformationElement.simps [simp del]

text \<open>
  The same loop with a bound on the number of passes through its body: \<open>None\<close> when the
  bound is used up while the slice is not empty.
\<close>

primrec decInformationElement_iter ::
  "nat \<Rightarrow> byte list \<Rightarrow> UE \<Rightarrow> slice \<Rightarrow> (panic + (byte list \<times> UE \<times> slice)) option" where
  "decInformationElement_iter 0 mem ue pdu =
     (if len pdu > 0 then None else Some (Inr (mem, ue, pdu)))"
| "decInformationElement_iter (Suc n) mem ue pdu =
     (if len pdu > 0 then
        (case decInformationElement_body mem ue pdu of Inl e \<Rightarrow> Some (Inl e)
         | Inr (mem', ue', pdu') \<Rightarrow> decInformationElement_iter n mem' ue' pdu')
      else Some (Inr (mem, ue, pdu)))"

subsection \<open>The libraries behind the authentication\<close>

text \<open>
  \<^verbatim>\<open>github.com/wmnsk/milenage\<close>, \<^verbatim>\<open>encoding/hex\<close> and \<^verbatim>\<open>crypto/hmac\<close> with
  \<^verbatim>\<open>crypto/sha256\<close> are not part of the repository: the decoder takes them as
  parameters. \<open>Milenage\<close> holds the fields of \<^verbatim>\<open>milenage.Milenage\<close> that
  \<^verbatim>\<open>decAuthenticationRequest\<close> names; a slice-typed field of the library is its bytes,
  or \<open>None\<close> for \<^verbatim>\<open>nil\<close>. A library call may panic.
\<close>

record Milenage =
  mil_K :: "byte list option"
  mil_OP :: "byte list option"
  mil_OPc :: "byte list option"
  mil_AMF :: "16 word"
  mil_SQN :: "byte list option"
  mil_CK :: "byte list option"
  mil_IK :: "byte list option"
  mil_AK :: "byte list option"
  mil_MACA :: "byte list option"
  mil_MACS :: "byte list option"
  mil_RAND :: "byte list option"
  mil_RES :: "byte list option"

record crypto =
  hex_DecodeString :: "string \<Rightarrow> byte list"
  milenage_NewWithOPc ::
    "byte list \<Rightarrow> byte list \<Rightarrow> byte list \<Rightarrow> 64 word \<Rightarrow> 16 word \<Rightarrow> panic + Milenage"
  milenage_F2345 :: "Milenage \<Rightarrow> panic + Milenage"
  milenage_F1 :: "Milenage \<Rightarrow> panic + Milenage"
  hmac_sha256 :: "byte list \<Rightarrow> byte list \<Rightarrow> byte list"

definition vals :: "byte list option \<Rightarrow> byte list" where
  "vals f = (case f of None \<Rightarrow> [] | Some bs \<Rightarrow> bs)"

text \<open>\<^verbatim>\<open>binary.BigEndian.Uint16\<close> and \<^verbatim>\<open>binary.BigEndian.PutUint16\<close>.\<close>

definition Uint16 :: "byte list \<Rightarrow> panic + 16 word" where
  "Uint16 b =
     (if length b < 2 then Inl IndexOutOfRange
      else Inr (ucast (b ! 1) OR push_bit 8 (ucast (b ! 0))))"

definition PutUint16 :: "16 word \<Rightarrow> byte list" where
  "PutUint16 v = [ucast (drop_bit 8 v), ucast v]"

text \<open>
  \<^verbatim>\<open>reflect.DeepEqual\<close> on two \<^verbatim>\<open>[]byte\<close> values: both \<^verbatim>\<open>nil\<close>, or both not
  \<^verbatim>\<open>nil\<close> and with the same bytes.
\<close>

definition DeepEqual :: "byte list \<Rightarrow> slice option \<Rightarrow> byte list option \<Rightarrow> bool" where
  "DeepEqual mem a b =
     (case a of
        None \<Rightarrow> (case b of None \<Rightarrow> True | Some bs \<Rightarrow> False)
      | Some s \<Rightarrow> (case b of None \<Rightarrow> False | Some bs \<Rightarrow> bytes mem s = bs))"

subsection \<open>The derivation of RES*\<close>

text \<open>
  \<^verbatim>\<open>fmt.Sprintf\<close> with the verb \<^verbatim>\<open>%03d\<close>: the decimal digits, filled with zeros on
  the left up to a width of three characters; the sign of a negative number counts for
  the width and stands before the zeros.
\<close>

fun decimal :: "nat \<Rightarrow> string" where
  "decimal n =
     (if n < 10 then [''0123456789'' ! n]
      else decimal (n div 10) @ [''0123456789'' ! (n mod 10)])"

declare decimal.simps [simp del]

definition zero_fill :: "nat \<Rightarrow> string \<Rightarrow> string" where
  "zero_fill w ds = replicate (w - length ds) (CHR ''0'') @ ds"

definition Sprintf_03d :: "int \<Rightarrow> string" where
  "Sprintf_03d n =
     (if n < 0 then CHR ''-'' # zero_fill 2 (decimal (nat (- n)))
      else zero_fill 3 (decimal (nat n)))"

text \<open>
  \<^verbatim>\<open>ComputeRESstar\<close>. \<^verbatim>\<open>resstar[n-16:]\<close> panics when the MAC has fewer than 16
  bytes.
\<close>

definition ComputeRESstar ::
  "(byte list \<Rightarrow> byte list \<Rightarrow> byte list) \<Rightarrow> int \<Rightarrow> int \<Rightarrow>
     byte list \<Rightarrow> byte list \<Rightarrow> byte list \<Rightarrow> byte list \<Rightarrow> panic + byte list" where
  "ComputeRESstar hmac mcc mnc rand' res ck ik =
     (let s0 = [];
          fc = [0x6b];
          s1 = s0 @ fc;
          p0str = ''5G:mnc'' @ Sprintf_03d mnc @ ''.mcc'' @ Sprintf_03d mcc
                  @ ''.3gppnetwork.org'';
          p0 = map of_char p0str;
          s2 = s1 @ p0;
          l0 = PutUint16 (of_nat (length p0));
          s3 = s2 @ l0;
          s4 = s3 @ rand';
          l1 = PutUint16 (of_nat (length rand'));
          s5 = s4 @ l1;
          s6 = s5 @ res;
          l2 = PutUint16 (of_nat (length res));
          s7 = s6 @ l2;
          k = ck @ ik;
          resstar = hmac k s7;
          n = length resstar
      in if n < 16 then Inl SliceBoundsOutOfRange else Inr (drop (n - 16) resstar))"

subsection \<open>Authentication request\<close>

text \<open>
  \<^verbatim>\<open>for n, v := range ue.AuthParam.seqxorak { m.SQN[n] = v ^ m.AK[n] }\<close>, from
  position \<open>n\<close> on.
\<close>

fun recoverSQN :: "byte list \<Rightarrow> nat \<Rightarrow> Milenage \<Rightarrow> panic + Milenage" where
  "recoverSQN [] n m = Inr m"
| "recoverSQN (v # vs) n m =
     (if n < length (vals (mil_AK m)) \<and> n < length (vals (mil_SQN m))
      then recoverSQN vs (Suc n)
             (m\<lparr>mil_SQN := Some (list_update (vals (mil_SQN m)) n (v XOR vals (mil_AK m) ! n))\<rparr>)
      else Inl IndexOutOfRange)"

text \<open>
  The lines of \<^verbatim>\<open>decAuthenticationRequest\<close> from \<^verbatim>\<open>hex.DecodeString\<close> to
  \<^verbatim>\<open>m.F1()\<close>: the vector that the UE computes from its key and the parsed challenge.
  The errors that the library calls return are dropped by the source.
\<close>

definition computeVector :: "crypto \<Rightarrow> byte list \<Rightarrow> UE \<Rightarrow> panic + Milenage" where
  "computeVector lib mem ue =
     (let k = hex_DecodeString lib (K (AuthParam ue));
          opc = hex_DecodeString lib (OPc (AuthParam ue))
      in case Uint16 (elems mem (amf (AuthParam ue))) of Inl e \<Rightarrow> Inl e | Inr amf' \<Rightarrow>
         case milenage_NewWithOPc lib k opc (elems mem (rand (AuthParam ue))) 0 amf' of
           Inl e \<Rightarrow> Inl e | Inr m0 \<Rightarrow>
         case milenage_F2345 lib m0 of Inl e \<Rightarrow> Inl e | Inr m1 \<Rightarrow>
         case recoverSQN (elems mem (seqxorak (AuthParam ue))) 0 m1 of
           Inl e \<Rightarrow> Inl e | Inr m2 \<Rightarrow>
         milenage_F1 lib m2)"

text \<open>
  \<^verbatim>\<open>decAuthenticationRequest\<close>. When the MAC values differ the function prints a line,
  restores \<^verbatim>\<open>ue.indent\<close> and returns; the source says
  \<^verbatim>\<open>// need response for error.\<close> there.
\<close>

definition decAuthenticationRequest ::
  "crypto \<Rightarrow> byte list \<Rightarrow> UE \<Rightarrow> slice \<Rightarrow> panic + (byte list \<times> UE \<times> slice)" where
  "decAuthenticationRequest lib mem ue pdu =
     (let orig = indent ue in
      case decngKSI mem (ue\<lparr>indent := indent ue + 1\<rparr>) pdu of
        Inl e \<Rightarrow> Inl e | Inr (ue1, pdu1) \<Rightarrow>
      case decABBA mem ue1 pdu1 of Inl e \<Rightarrow> Inl e | Inr (ue2, pdu2) \<Rightarrow>
      case decInformationElement mem ue2 pdu2 of Inl e \<Rightarrow> Inl e | Inr (mem3, ue3, pdu3) \<Rightarrow>
      let ue4 = ue3\<lparr>indent := indent ue3 - 1\<rparr> in
      case computeVector lib mem3 ue4 of Inl e \<Rightarrow> Inl e | Inr m \<Rightarrow>
      let ue5 = ue4\<lparr>indent := indent ue4 + 1\<rparr> in
      if DeepEqual mem3 (mac (AuthParam ue5)) (mil_MACA m) = False
      then Inr (mem3, ue5\<lparr>indent := orig\<rparr>, pdu3)
      else
        (case ComputeRESstar (hmac_sha256 lib) (MCC ue5) (MNC ue5) (vals (mil_RAND m))
                (vals (mil_RES m)) (vals (mil_CK m)) (vals (mil_IK m)) of
           Inl e \<Rightarrow> Inl e
         | Inr r \<Rightarrow>
             Inr (mem3, ue5\<lparr>AuthParam := (AuthParam ue5)\<lparr>RESstar := r\<rparr>, indent := orig\<rparr>,
                  pdu3)))"

subsection \<open>Security mode command\<close>

definition decSecurityModeCommand ::
  "byte list \<Rightarrow> UE \<Rightarrow> slice \<Rightarrow> panic + (byte list \<times> UE \<times> slice)" where
  "decSecurityModeCommand mem ue pdu =
     (case decNASSecurityAlgorithms mem (ue\<lparr>indent := indent ue + 1\<rparr>) pdu of
        Inl e \<Rightarrow> Inl e | Inr (ue1, pdu1) \<Rightarrow>
      case decngKSI mem ue1 pdu1 of Inl e \<Rightarrow> Inl e | Inr (ue2, pdu2) \<Rightarrow>
      case decUESecurityCapability mem ue2 pdu2 of Inl e \<Rightarrow> Inl e | Inr (ue3, pdu3) \<Rightarrow>
      case decInformationElement mem ue3 pdu3 of Inl e \<Rightarrow> Inl e | Inr (mem4, ue4, pdu4) \<Rightarrow>
      Inr (mem4, ue4\<lparr>indent := indent ue4 - 1\<rparr>, pdu4))"

subsection \<open>Decode\<close>

text \<open>
  The part of \<^verbatim>\<open>Decode\<close> from \<^verbatim>\<open>msgType = int((*pdu)[0])\<close> to its \<^verbatim>\<open>return\<close>:
  the message type, the dispatch, and the reset of \<^verbatim>\<open>securityHeaderParsed\<close>.
\<close>

definition Decode_message ::
  "crypto \<Rightarrow> byte list \<Rightarrow> UE \<Rightarrow> slice \<Rightarrow> panic + (byte list \<times> UE \<times> slice \<times> int)" where
  "Decode_message lib mem ue pdu =
     (case index mem pdu 0 of Inl e \<Rightarrow> Inl e | Inr t \<Rightarrow>
      case slice_from pdu 1 of Inl e \<Rightarrow> Inl e | Inr pdu1 \<Rightarrow>
      let msgType = uint t;
          ue1 = ue\<lparr>indent := indent ue + 1\<rparr>
      in case (if msgType = MessageTypeAuthenticationRequest
               then decAuthenticationRequest lib mem ue1 pdu1
               else if msgType = MessageTypeSecurityModeCommand
               then decSecurityModeCommand mem ue1 pdu1
               else Inr (mem, ue1, pdu1)) of
           Inl e \<Rightarrow> Inl e
         | Inr (mem', ue', pdu') \<Rightarrow>
             Inr (mem', ue'\<lparr>indent := indent ue' - 1, securityHeaderParsed := False\<rparr>, pdu',
                  msgType))"

text \<open>
  \<^verbatim>\<open>Decode\<close>. The parameter \<^verbatim>\<open>length\<close> is counted down and passed on, and nothing
  reads it. The result is the store, the context, the caller's slice and \<^verbatim>\<open>msgType\<close>.
\<close>

function Decode ::
  "crypto \<Rightarrow> byte list \<Rightarrow> UE \<Rightarrow> slice \<Rightarrow> int \<Rightarrow> panic + (byte list \<times> UE \<times> slice \<times> int)" where
  "Decode lib mem ue pdu length' =
     (case index mem pdu 0 of Inl e \<Rightarrow> Inl e | Inr epd \<Rightarrow>
      case slice_from pdu 1 of Inl e \<Rightarrow> Inl e | Inr pdu1 \<Rightarrow>
      case index mem pdu1 0 of Inl e \<Rightarrow> Inl e | Inr secHeader \<Rightarrow>
      case slice_from pdu1 1 of Inl e \<Rightarrow> Inl e | Inr pdu2 \<Rightarrow>
      if uint secHeader \<noteq> 0x00 \<and> securityHeaderParsed ue = False then
        (case slice_to mem pdu2 4 of Inl e \<Rightarrow> Inl e | Inr mac' \<Rightarrow>
         case index mem pdu2 4 of Inl e \<Rightarrow> Inl e | Inr seq \<Rightarrow>
         case slice_from pdu2 5 of Inl e \<Rightarrow> Inl e | Inr pdu3 \<Rightarrow>
         Decode lib mem (ue\<lparr>securityHeaderParsed := True\<rparr>) pdu3 (length' - 1 - 1 - 5))
      else Decode_message lib mem ue pdu2)"
  by pat_completeness auto
termination
  by (relation "measure (\<lambda>(lib, mem, ue, pdu, l). if securityHeaderParsed ue then 0 else 1)")
    auto

declare Decode.simps [simp del]

subsection \<open>Authentication response\<close>

text \<open>\<^verbatim>\<open>type NasMessageMM struct\<close> and \<^verbatim>\<open>type AuthParamRes struct\<close>.\<close>

record NasMessageMM =
  ExtendedProtocolDiscriminator :: byte
  SecurityHeaderType :: byte
  MessageType :: byte

record AuthParamRes =
  res_iei :: byte
  res_length :: byte
  res_resstar :: "byte list"

text \<open>
  \<^verbatim>\<open>for i, v := range ue.AuthParam.RESstar { res.resstar[i] = v }\<close>, from position
  \<open>i\<close> on; \<^verbatim>\<open>res.resstar\<close> is an array of 16 bytes, and an index beyond it panics.
\<close>

fun copy_resstar :: "byte list \<Rightarrow> nat \<Rightarrow> byte list \<Rightarrow> panic + byte list" where
  "copy_resstar [] i arr = Inr arr"
| "copy_resstar (v # vs) i arr =
     (if i < length arr then copy_resstar vs (Suc i) (list_update arr i v)
      else Inl IndexOutOfRange)"

definition encAuthParamRes :: "UE \<Rightarrow> panic + AuthParamRes" where
  "encAuthParamRes ue =
     (case copy_resstar (RESstar (AuthParam ue)) 0 (replicate 16 0) of
        Inl e \<Rightarrow> Inl e
      | Inr arr \<Rightarrow>
          Inr \<lparr>res_iei = of_int ieiAuthParamRES, res_length = of_nat (length arr),
               res_resstar = arr\<rparr>)"

text \<open>
  \<^verbatim>\<open>binary.Write\<close> of a struct of \<^verbatim>\<open>uint8\<close> fields and byte arrays: the fields in
  the order of their declaration.
\<close>

definition write_NasMessageMM :: "NasMessageMM \<Rightarrow> byte list" where
  "write_NasMessageMM h =
     [ExtendedProtocolDiscriminator h, SecurityHeaderType h, MessageType h]"

definition write_AuthParamRes :: "AuthParamRes \<Rightarrow> byte list" where
  "write_AuthParamRes r = [res_iei r, res_length r] @ res_resstar r"

definition MakeAuthenticationResponse :: "UE \<Rightarrow> panic + byte list" where
  "MakeAuthenticationResponse ue =
     (let h = \<lparr>ExtendedProtocolDiscriminator = of_int EPD5GSMobilityManagement,
                SecurityHeaderType = of_int SecurityHeaderTypePlain,
                MessageType = of_int MessageTypeAuthenticationResponse\<rparr>;
          data = write_NasMessageMM h
      in case encAuthParamRes ue of Inl e \<Rightarrow> Inl e
         | Inr r \<Rightarrow> Inr (data @ write_AuthParamRes r))"

subsection \<open>The derivation of RES* in the words of the specification\<close>

text \<open>
  Section 4.3 of the specification: the input string is
  \<open>S = FC(0x6B) \<parallel> P0 \<parallel> L0 \<parallel> RAND \<parallel> L1 \<parallel> RES \<parallel> L2\<close>, where \<open>P0\<close> is the ASCII
  serving network name \<^verbatim>\<open>5G:mnc<3-digit>.mcc<3-digit>.3gppnetwork.org\<close> and each
  \<open>Li\<close> is the big-endian 16-bit length of the parameter before it. The three digits
  of a code are its hundreds, tens and units; they are the code for a code from 0 to 999,
  the only numbers that three digits can write.
\<close>

definition three_digits :: "int \<Rightarrow> string" where
  "three_digits n =
     [''0123456789'' ! (nat n div 100 mod 10), ''0123456789'' ! (nat n div 10 mod 10),
      ''0123456789'' ! (nat n mod 10)]"

definition serving_network_name :: "int \<Rightarrow> int \<Rightarrow> byte list" where
  "serving_network_name mcc mnc =
     map of_char (''5G:mnc'' @ three_digits mnc @ ''.mcc'' @ three_digits mcc @ ''.3gppnetwork.org'')"

definition length16 :: "byte list \<Rightarrow> byte list" where
  "length16 x = [of_nat (length x div 256), of_nat (length x mod 256)]"

definition annexA4_S :: "int \<Rightarrow> int \<Rightarrow> byte list \<Rightarrow> byte list \<Rightarrow> byte list" where
  "annexA4_S mcc mnc rand' res =
     [0x6B] @ serving_network_name mcc mnc @ length16 (serving_network_name mcc mnc)
     @ rand' @ length16 rand' @ res @ length16 res"

subsection \<open>Example values\<close>

text \<open>
  A UE context as \<^verbatim>\<open>NewNAS\<close> leaves it after reading a profile: the unexported fields
  have their zero values.
\<close>

definition ue_profile :: UE where
  "ue_profile =
     \<lparr>MSIN = ''0000000001'', MCC = 1, MNC = 1, RoutingIndicator = 0,
      ProtectionScheme = ''null'',
      AuthParam = \<lparr>K = ''000102030405060708090a0b0c0d0e0f'',
                   OPc = ''101112131415161718191a1b1c1d1e1f'',
                   rand = None, autn = None, seqxorak = None, amf = None, mac = None,
                   RESstar = []\<rparr>,
      securityHeaderParsed = False, indent = 0\<rparr>"

text \<open>The AUTN value \<^verbatim>\<open>00112233445566778899AABBCCDDEEFF\<close>.\<close>

definition autn_example :: "byte list" where
  "autn_example = [0x00, 0x11, 0x22, 0x33, 0x44, 0x55, 0x66, 0x77,
                   0x88, 0x99, 0xAA, 0xBB, 0xCC, 0xDD, 0xEE, 0xFF]"

text \<open>
  Two blocks of information elements: a UE security capability element (\<open>0x2e\<close>, one
  value byte) and a 5GMM capability element (\<open>0x10\<close>), each followed by a RAND element.
\<close>

definition capability_then_rand :: "byte list" where
  "capability_then_rand = [0x2e, 0x01, 0xAA, 0x21] @ autn_example"

definition unknown_then_rand :: "byte list" where
  "unknown_then_rand = [0x10, 0x01, 0x20, 0x21] @ autn_example"

text \<open>
  A stand-in for HMAC-SHA-256, for running \<^verbatim>\<open>ComputeRESstar\<close> on an example: 32
  bytes that depend on the key and on the end of the message.
\<close>

definition hmac_double :: "byte list \<Rightarrow> byte list \<Rightarrow> byte list" where
  "hmac_double k s = take 32 (rev s @ k @ replicate 32 0)"

text \<open>
  A second stand-in, which gives the first 32 bytes of the message, last byte first: the
  16 bytes that \<^verbatim>\<open>ComputeRESstar\<close> keeps of it are the first 16 bytes of the message.
\<close>

definition hmac_mirror :: "byte list \<Rightarrow> byte list \<Rightarrow> byte list" where
  "hmac_mirror k s = rev (take 32 (s @ k @ replicate 32 0))"

text \<open>Sixteen zero bytes.\<close>

definition zeros16 :: "byte list" where
  "zeros16 = [0, 0, 0, 0, 0, 0, 0, 0, 0, 0, 0, 0, 0, 0, 0, 0]"

text \<open>
  Stand-ins for the libraries, for running the decoder on examples. Every key decodes to
  the empty key, the anonymity key is zero, so the recovered SQN is \<open>SQN \<oplus> AK\<close> as
  received, and the MAC that \<open>f1\<close> gives is SQN followed by AMF: a challenge verifies
  when the last 8 bytes of its AUTN repeat the first 8.
\<close>

definition milenage_double :: "byte list \<Rightarrow> byte list \<Rightarrow> byte list \<Rightarrow> 64 word \<Rightarrow> 16 word \<Rightarrow> Milenage" where
  "milenage_double k opc rnd sqn amf' =
     \<lparr>mil_K = Some k, mil_OP = None, mil_OPc = Some opc, mil_AMF = amf',
      mil_SQN = Some [0, 0, 0, 0, 0, 0], mil_CK = Some zeros16, mil_IK = Some zeros16,
      mil_AK = Some [0, 0, 0, 0, 0, 0], mil_MACA = Some [0, 0, 0, 0, 0, 0, 0, 0],
      mil_MACS = Some [0, 0, 0, 0, 0, 0, 0, 0], mil_RAND = Some rnd,
      mil_RES = Some [0, 0, 0, 0, 0, 0, 0, 0]\<rparr>"

definition crypto_double :: crypto where
  "crypto_double =
     \<lparr>hex_DecodeString = (\<lambda>s. []),
      milenage_NewWithOPc = (\<lambda>k opc rnd sqn amf'. Inr (milenage_double k opc rnd sqn amf')),
      milenage_F2345 = Inr,
      milenage_F1 = (\<lambda>m. Inr (m\<lparr>mil_MACA := Some (vals (mil_SQN m) @ PutUint16 (mil_AMF m))\<rparr>)),
      hmac_sha256 = hmac_double\<rparr>"

text \<open>
  An integrity-protected PDU (security header type 2, four MAC bytes, a sequence number)
  around a message whose own security header type is 2 again and whose message type is
  Registration Request (\<open>0x41\<close>), which \<^verbatim>\<open>Decode\<close> does not dispatch.
\<close>

definition wrapped_pdu :: "byte list" where
  "wrapped_pdu = [0x7e, 0x02, 0xa1, 0xa2, 0xa3, 0xa4, 0x05, 0x7e, 0x02, 0x41]"


definition auth_request :: "byte list" where
  "auth_request = [0x7e, 0x00, 0x56, 0x00, 0x02, 0x00, 0x00, 0x21] @ zeros16
                  @ [0x20, 0x10] @ autn_example"

definition auth_request_verified :: "byte list" where
  "auth_request_verified =
     [0x7e, 0x00, 0x56, 0x00, 0x02, 0x00, 0x00, 0x21] @ zeros16 @ [0x20, 0x10]
     @ [0x00, 0x11, 0x22, 0x33, 0x44, 0x55, 0x66, 0x77,
        0x00, 0x11, 0x22, 0x33, 0x44, 0x55, 0x66, 0x77]"

definition auth_params_parsed :: AuthParam where
  "auth_params_parsed =
     (AuthParam ue_profile)\<lparr>rand := Some \<lparr>ptr = 8, len = 16\<rparr>,
                            autn := Some \<lparr>ptr = 26, len = 16\<rparr>,
                            seqxorak := Some \<lparr>ptr = 26, len = 6\<rparr>,
                            amf := Some \<lparr>ptr = 32, len = 2\<rparr>,
                            mac := Some \<lparr>ptr = 34, len = 8\<rparr>\<rparr>"








text \<open>
  A Security Mode Command: algorithms, key set identifier, a replayed capability of two
  bytes, and an IMEISV request element in the compact form (identifier \<open>0xe\<close>, value 1).
\<close>

definition security_mode_command :: "byte list" where
  "security_mode_command = [0x7e, 0x00, 0x5d, 0x00, 0x01, 0x02, 0xf0, 0x70, 0xe1]"

section \<open>Properties\<close>

lemmas iei_defs =
  ieiIMEISVRequest_def iei5GMMCapability_def ieiAuthParamAUTN_def ieiAuthParamRAND_def
  ieiAuthParamRES_def ieiUESecurityCapability_def ieiAdditional5GSecurityInformation_def
  ieiNonSupported_def

subsection \<open>Slices\<close>

text \<open>A slice cut inside another one shows the corresponding part of its bytes.\<close>

lemma bytes_sub:
  assumes "a + n \<le> len s"
  shows "bytes mem \<lparr>ptr = ptr s + a, len = n\<rparr> = take n (drop a (bytes mem s))"
proof -
  have "take n (drop a (take (len s) (drop (ptr s) mem)))
      = take n (take (len s - a) (drop a (drop (ptr s) mem)))"
    by (simp only: drop_take)
  also have "\<dots> = take n (drop (ptr s + a) mem)"
    using assms by (simp add: min_def add.commute)
  finally show ?thesis
    by (simp add: bytes_def)
qed

lemma length_bytes: "valid mem s \<Longrightarrow> length (bytes mem s) = len s"
  by (simp add: bytes_def valid_def)

subsection \<open>The authentication response\<close>

lemma copy_resstar_fits:
  "i + length vs \<le> length arr \<Longrightarrow>
   copy_resstar vs i arr = Inr (take i arr @ vs @ drop (i + length vs) arr)"
proof (induction vs arbitrary: i arr)
  case Nil
  then show ?case by simp
next
  case (Cons v vs)
  then have "i < length arr" by simp
  then have "take (Suc i) (list_update arr i v) = take i arr @ [v]"
    by (simp add: take_Suc_conv_app_nth)
  with Cons show ?case by simp
qed

text \<open>A value of more than 16 bytes does not fit the array: the copy panics.\<close>

lemma copy_resstar_overflow:
  "i \<le> length arr \<Longrightarrow> length arr < i + length vs \<Longrightarrow>
   copy_resstar vs i arr = Inl IndexOutOfRange"
  by (induction vs arbitrary: i arr) auto

lemma encAuthParamRes_fits:
  assumes "length (RESstar (AuthParam ue)) \<le> 16"
  shows "encAuthParamRes ue =
    Inr \<lparr>res_iei = 0x2d, res_length = 16,
         res_resstar = RESstar (AuthParam ue)
                       @ replicate (16 - length (RESstar (AuthParam ue))) 0\<rparr>"
  using assms by (simp add: encAuthParamRes_def copy_resstar_fits ieiAuthParamRES_def)

lemma MakeAuthenticationResponse_fits:
  assumes "length (RESstar (AuthParam ue)) \<le> 16"
  shows "MakeAuthenticationResponse ue =
    Inr ([0x7e, 0x00, 0x57] @ [0x2d, 16] @ RESstar (AuthParam ue)
         @ replicate (16 - length (RESstar (AuthParam ue))) 0)"
  using assms
  by (simp add: MakeAuthenticationResponse_def encAuthParamRes_fits write_NasMessageMM_def
      write_AuthParamRes_def EPD5GSMobilityManagement_def SecurityHeaderTypePlain_def
      MessageTypeAuthenticationResponse_def)

text \<open>
  Claim C8. When \<^verbatim>\<open>ue.AuthParam.RESstar\<close> holds 16 bytes,
  \<^verbatim>\<open>MakeAuthenticationResponse\<close> returns the three header bytes (EPD \<open>0x7e\<close>, plain
  security header, message type \<open>0x57\<close>), then the tag \<open>0x2d\<close>, a length byte equal to
  16 and the 16 bytes of RES* in order: 3 + 2 + 16 = 21 bytes in all.
\<close>

theorem MakeAuthenticationResponse_full_RESstar:
  assumes "length (RESstar (AuthParam ue)) = 16"
  shows "\<exists>pdu. MakeAuthenticationResponse ue = Inr pdu
     \<and> pdu = [of_int EPD5GSMobilityManagement, of_int SecurityHeaderTypePlain,
              of_int MessageTypeAuthenticationResponse]
             @ [of_int ieiAuthParamRES, 16] @ RESstar (AuthParam ue)
     \<and> pdu = [0x7e, 0x00, 0x57] @ [0x2d, 0x10] @ RESstar (AuthParam ue)
     \<and> length pdu = 3 + 2 + 16"
  using assms MakeAuthenticationResponse_fits [of ue]
  by (simp add: EPD5GSMobilityManagement_def SecurityHeaderTypePlain_def
      MessageTypeAuthenticationResponse_def ieiAuthParamRES_def)

theorem MakeAuthenticationResponse_full_RESstar_witness:
  "length (RESstar (AuthParam (ue_profile\<lparr>AuthParam := (AuthParam ue_profile)\<lparr>RESstar := autn_example\<rparr>\<rparr>))) = 16
   \<and> MakeAuthenticationResponse
        (ue_profile\<lparr>AuthParam := (AuthParam ue_profile)\<lparr>RESstar := autn_example\<rparr>\<rparr>)
     = Inr [0x7e, 0x00, 0x57, 0x2d, 0x10,
            0x00, 0x11, 0x22, 0x33, 0x44, 0x55, 0x66, 0x77,
            0x88, 0x99, 0xAA, 0xBB, 0xCC, 0xDD, 0xEE, 0xFF]"
  using MakeAuthenticationResponse_full_RESstar
    [of "ue_profile\<lparr>AuthParam := (AuthParam ue_profile)\<lparr>RESstar := autn_example\<rparr>\<rparr>"]
  by (simp add: autn_example_def)

text \<open>
  Claim C10. When \<^verbatim>\<open>ue.AuthParam.RESstar\<close> holds fewer than 16 bytes (none at all
  before the first successful authentication), \<^verbatim>\<open>MakeAuthenticationResponse\<close> still
  returns 21 bytes: the length byte of the RES* element is 16 and the value is the bytes
  of \<^verbatim>\<open>RESstar\<close> followed by zeros up to 16 bytes.
\<close>

theorem MakeAuthenticationResponse_zero_pads:
  assumes "length (RESstar (AuthParam ue)) < 16"
  shows "\<exists>pdu. MakeAuthenticationResponse ue = Inr pdu
     \<and> pdu = [0x7e, 0x00, 0x57] @ [0x2d, 0x10] @ RESstar (AuthParam ue)
             @ replicate (16 - length (RESstar (AuthParam ue))) 0
     \<and> length pdu = 21"
  using assms MakeAuthenticationResponse_fits [of ue] by simp

theorem MakeAuthenticationResponse_zero_pads_witness:
  "length (RESstar (AuthParam ue_profile)) < 16
   \<and> MakeAuthenticationResponse ue_profile
     = Inr [0x7e, 0x00, 0x57, 0x2d, 0x10, 0, 0, 0, 0, 0, 0, 0, 0, 0, 0, 0, 0, 0, 0, 0, 0]
   \<and> MakeAuthenticationResponse
        (ue_profile\<lparr>AuthParam := (AuthParam ue_profile)\<lparr>RESstar := [0xde, 0xad]\<rparr>\<rparr>)
     = Inr [0x7e, 0x00, 0x57, 0x2d, 0x10, 0xde, 0xad, 0, 0, 0, 0, 0, 0, 0, 0, 0, 0, 0, 0, 0, 0]"
  using MakeAuthenticationResponse_zero_pads [of ue_profile]
    MakeAuthenticationResponse_zero_pads
      [of "ue_profile\<lparr>AuthParam := (AuthParam ue_profile)\<lparr>RESstar := [0xde, 0xad]\<rparr>\<rparr>"]
  by (simp add: ue_profile_def numeral_eq_Suc)

subsection \<open>The AUTN element\<close>

lemma decAuthParamAUTN_16:
  assumes "valid mem pdu" and "index mem pdu 0 = Inr 16" and "17 \<le> len pdu"
  shows "decAuthParamAUTN mem ue pdu =
    Inr (ue\<lparr>AuthParam := (AuthParam ue)\<lparr>
            autn := Some \<lparr>ptr = ptr pdu + 1, len = 16\<rparr>,
            seqxorak := Some \<lparr>ptr = ptr pdu + 1, len = 6\<rparr>,
            amf := Some \<lparr>ptr = ptr pdu + 7, len = 2\<rparr>,
            mac := Some \<lparr>ptr = ptr pdu + 9, len = 8\<rparr>\<rparr>\<rparr>,
         \<lparr>ptr = ptr pdu + 17, len = len pdu - 17\<rparr>)"
  using assms
  by (auto simp: decAuthParamAUTN_def valid_def slice_from_def slice_to_def slice_range_def
      cap_def)

text \<open>
  Claim C7. For an AUTN element whose length octet is 16 and whose 16 value bytes are in
  the buffer, \<^verbatim>\<open>decAuthParamAUTN\<close> stores the value as \<^verbatim>\<open>autn\<close>, its first 6 bytes
  as \<^verbatim>\<open>seqxorak\<close>, the next 2 as \<^verbatim>\<open>amf\<close> and the last 8 as \<^verbatim>\<open>mac\<close>, and advances
  the slice by 17 bytes.
\<close>

theorem decAuthParamAUTN_splits:
  assumes "valid mem pdu" and "index mem pdu 0 = Inr 16" and "17 \<le> len pdu"
  shows "\<exists>ue' pdu'. decAuthParamAUTN mem ue pdu = Inr (ue', pdu')
     \<and> elems mem (autn (AuthParam ue')) = take 16 (drop 1 (bytes mem pdu))
     \<and> elems mem (seqxorak (AuthParam ue')) = take 6 (take 16 (drop 1 (bytes mem pdu)))
     \<and> elems mem (amf (AuthParam ue')) = take 2 (drop 6 (take 16 (drop 1 (bytes mem pdu))))
     \<and> elems mem (mac (AuthParam ue')) = drop 8 (take 16 (drop 1 (bytes mem pdu)))
     \<and> bytes mem pdu' = drop 17 (bytes mem pdu)"
proof -
  let ?B = "bytes mem pdu"
  have a: "bytes mem \<lparr>ptr = ptr pdu + 1, len = 16\<rparr> = take 16 (drop 1 ?B)"
    using assms(3) bytes_sub [of 1 16 pdu mem] by simp
  have s: "bytes mem \<lparr>ptr = ptr pdu + 1, len = 6\<rparr> = take 6 (take 16 (drop 1 ?B))"
    using assms(3) bytes_sub [of 1 6 pdu mem] by simp
  have f: "bytes mem \<lparr>ptr = ptr pdu + 7, len = 2\<rparr> = take 2 (drop 6 (take 16 (drop 1 ?B)))"
    using assms(3) bytes_sub [of 7 2 pdu mem] by (simp add: drop_take)
  have m: "bytes mem \<lparr>ptr = ptr pdu + 9, len = 8\<rparr> = drop 8 (take 16 (drop 1 ?B))"
    using assms(3) bytes_sub [of 9 8 pdu mem] by (simp add: drop_take)
  have "length ?B = len pdu"
    using assms(1) by (rule length_bytes)
  then have r: "bytes mem \<lparr>ptr = ptr pdu + 17, len = len pdu - 17\<rparr> = drop 17 ?B"
    using assms(3) bytes_sub [of 17 "len pdu - 17" pdu mem] by simp
  show ?thesis
    unfolding decAuthParamAUTN_16 [OF assms]
    by (simp add: elems_def a s f m r del: One_nat_def)
qed

theorem decAuthParamAUTN_splits_witness:
  "valid (16 # autn_example) \<lparr>ptr = 0, len = 17\<rparr>
   \<and> index (16 # autn_example) \<lparr>ptr = 0, len = 17\<rparr> 0 = Inr 16
   \<and> (\<exists>ue' pdu'.
        decAuthParamAUTN (16 # autn_example) ue_profile \<lparr>ptr = 0, len = 17\<rparr> = Inr (ue', pdu')
      \<and> elems (16 # autn_example) (seqxorak (AuthParam ue'))
          = [0x00, 0x11, 0x22, 0x33, 0x44, 0x55]
      \<and> elems (16 # autn_example) (amf (AuthParam ue')) = [0x66, 0x77]
      \<and> elems (16 # autn_example) (mac (AuthParam ue'))
          = [0x88, 0x99, 0xAA, 0xBB, 0xCC, 0xDD, 0xEE, 0xFF])"
proof -
  have v: "valid (16 # autn_example) \<lparr>ptr = 0, len = 17\<rparr>"
    by (simp add: valid_def autn_example_def)
  have i: "index (16 # autn_example) \<lparr>ptr = 0, len = 17\<rparr> 0 = Inr 16"
    by (simp add: index_def)
  have l: "17 \<le> len \<lparr>ptr = 0, len = 17\<rparr>"
    by simp
  have b: "bytes (16 # autn_example) \<lparr>ptr = 0, len = 17\<rparr> = 16 # autn_example"
    by (simp add: bytes_def autn_example_def)
  show ?thesis
    using v i decAuthParamAUTN_splits [OF v i l, of ue_profile] unfolding b
    by (simp add: autn_example_def) blast
qed

subsection \<open>The loop over the information elements\<close>

lemma decInformationElement_done:
  "len pdu = 0 \<Longrightarrow> decInformationElement mem ue pdu = Inr (mem, ue, pdu)"
  by (simp add: decInformationElement.simps)

lemma decInformationElement_next:
  "0 < len pdu \<Longrightarrow> decInformationElement_body mem ue pdu = Inr (mem', ue', pdu') \<Longrightarrow>
   decInformationElement mem ue pdu = decInformationElement mem' ue' pdu'"
  by (subst decInformationElement.simps) simp

lemma decInformationElement_panic:
  "0 < len pdu \<Longrightarrow> decInformationElement_body mem ue pdu = Inl e \<Longrightarrow>
   decInformationElement mem ue pdu = Inl e"
  by (subst decInformationElement.simps) simp

text \<open>The four \<^verbatim>\<open>case\<close> labels of the \<^verbatim>\<open>switch\<close>, for an identifier in the plain form.\<close>

lemma decInformationElement_body_tagged:
  assumes "index mem pdu 0 = Inr b"
  shows "b = 0x21 \<Longrightarrow> decInformationElement_body mem ue pdu =
           (case decAuthParamRAND mem ue \<lparr>ptr = ptr pdu + 1, len = len pdu - 1\<rparr> of
              Inl e \<Rightarrow> Inl e | Inr (ue', pdu') \<Rightarrow> Inr (mem, ue', pdu'))"
    and "b = 0x20 \<Longrightarrow> decInformationElement_body mem ue pdu =
           (case decAuthParamAUTN mem ue \<lparr>ptr = ptr pdu + 1, len = len pdu - 1\<rparr> of
              Inl e \<Rightarrow> Inl e | Inr (ue', pdu') \<Rightarrow> Inr (mem, ue', pdu'))"
    and "b = 0x0e \<Longrightarrow> decInformationElement_body mem ue pdu =
           (case decIMEISVRequest mem ue \<lparr>ptr = ptr pdu + 1, len = len pdu - 1\<rparr> of
              Inl e \<Rightarrow> Inl e | Inr (ue', pdu') \<Rightarrow> Inr (mem, ue', pdu'))"
    and "b = 0x36 \<Longrightarrow> decInformationElement_body mem ue pdu =
           Inr (mem, ue, \<lparr>ptr = ptr pdu + 1, len = len pdu - 1\<rparr>)"
proof -
  have "0 < len pdu"
    using assms by (auto simp: index_def split: if_splits)
  then have p: "slice_from pdu 1 = Inr \<lparr>ptr = ptr pdu + 1, len = len pdu - 1\<rparr>"
    by (simp add: slice_from_def)
  show "b = 0x21 \<Longrightarrow> decInformationElement_body mem ue pdu =
           (case decAuthParamRAND mem ue \<lparr>ptr = ptr pdu + 1, len = len pdu - 1\<rparr> of
              Inl e \<Rightarrow> Inl e | Inr (ue', pdu') \<Rightarrow> Inr (mem, ue', pdu'))"
    using assms
    by (simp add: decInformationElement_body_def p iei_defs ieStr_def ieStr_entries_def
        del: One_nat_def)
  show "b = 0x20 \<Longrightarrow> decInformationElement_body mem ue pdu =
           (case decAuthParamAUTN mem ue \<lparr>ptr = ptr pdu + 1, len = len pdu - 1\<rparr> of
              Inl e \<Rightarrow> Inl e | Inr (ue', pdu') \<Rightarrow> Inr (mem, ue', pdu'))"
    using assms
    by (simp add: decInformationElement_body_def p iei_defs ieStr_def ieStr_entries_def
        del: One_nat_def)
  show "b = 0x0e \<Longrightarrow> decInformationElement_body mem ue pdu =
           (case decIMEISVRequest mem ue \<lparr>ptr = ptr pdu + 1, len = len pdu - 1\<rparr> of
              Inl e \<Rightarrow> Inl e | Inr (ue', pdu') \<Rightarrow> Inr (mem, ue', pdu'))"
    using assms
    by (simp add: decInformationElement_body_def p iei_defs ieStr_def ieStr_entries_def
        del: One_nat_def)
  show "b = 0x36 \<Longrightarrow> decInformationElement_body mem ue pdu =
           Inr (mem, ue, \<lparr>ptr = ptr pdu + 1, len = len pdu - 1\<rparr>)"
    using assms
    by (simp add: decInformationElement_body_def p iei_defs ieStr_def ieStr_entries_def
        del: One_nat_def)
qed

text \<open>
  The \<^verbatim>\<open>default\<close> branch: an identifier that is none of the four \<^verbatim>\<open>case\<close> labels.
  A compact identifier has its byte masked in the store first.
\<close>

lemma decInformationElement_body_default:
  assumes "index mem pdu 0 = Inr b"
    and "iei = (if uint b AND 0x80 = 0x80 then drop_bit 4 (uint b) else uint b)"
    and "iei \<notin> {ieiIMEISVRequest, ieiAuthParamAUTN, ieiAuthParamRAND,
                 ieiAdditional5GSecurityInformation}"
    and "mem' = (if uint b AND 0x80 = 0x80
                 then list_update mem (ptr pdu) (mem ! ptr pdu AND 0x0f) else mem)"
  shows "decInformationElement_body mem ue pdu = Inr (mem', ue, empty_slice mem')"
proof -
  have l: "0 < len pdu"
    using assms(1) by (auto simp: index_def split: if_splits)
  then obtain p1 where p1: "slice_from pdu 1 = Inr p1"
    by (auto simp: slice_from_def)
  have n: "iei \<noteq> 14" "iei \<noteq> 32" "iei \<noteq> 33" "iei \<noteq> 54"
    using assms(3) by (auto simp: iei_defs)
  show ?thesis
  proof (cases "uint b AND 0x80 = 0x80")
    case True
    then have i: "iei = drop_bit 4 (uint b)"
      and m: "mem' = list_update mem (ptr pdu) (mem ! ptr pdu AND 0x0f)"
      using assms(2,4) by simp_all
    show ?thesis
    proof (cases "ieStr iei = []")
      case True
      with \<open>uint b AND 0x80 = 0x80\<close> assms(1) i m show ?thesis
        by (simp add: decInformationElement_body_def iei_defs)
    next
      case False
      with \<open>uint b AND 0x80 = 0x80\<close> assms(1) i m n show ?thesis
        by (simp add: decInformationElement_body_def iei_defs)
    qed
  next
    case False
    then have i: "iei = uint b" and m: "mem' = mem"
      using assms(2,4) by simp_all
    show ?thesis
    proof (cases "ieStr iei = []")
      case True
      with \<open>uint b AND 0x80 \<noteq> 0x80\<close> assms(1) i m p1 show ?thesis
        by (simp add: decInformationElement_body_def iei_defs)
    next
      case False
      with \<open>uint b AND 0x80 \<noteq> 0x80\<close> assms(1) i m n p1 show ?thesis
        by (simp add: decInformationElement_body_def iei_defs)
    qed
  qed
qed

lemma decInformationElement_default:
  assumes "index mem pdu 0 = Inr b"
    and "iei = (if uint b AND 0x80 = 0x80 then drop_bit 4 (uint b) else uint b)"
    and "iei \<notin> {ieiIMEISVRequest, ieiAuthParamAUTN, ieiAuthParamRAND,
                 ieiAdditional5GSecurityInformation}"
    and "mem' = (if uint b AND 0x80 = 0x80
                 then list_update mem (ptr pdu) (mem ! ptr pdu AND 0x0f) else mem)"
  shows "decInformationElement mem ue pdu = Inr (mem', ue, empty_slice mem')"
proof -
  have "0 < len pdu"
    using assms(1) by (auto simp: index_def split: if_splits)
  then have "decInformationElement mem ue pdu = decInformationElement mem' ue (empty_slice mem')"
    using decInformationElement_body_default [OF assms] by (rule decInformationElement_next)
  also have "\<dots> = Inr (mem', ue, empty_slice mem')"
    by (rule decInformationElement_done) (simp add: empty_slice_def)
  finally show ?thesis .
qed

text \<open>
  Claim C5. When the identifier that \<^verbatim>\<open>decInformationElement\<close> reads at the head of the
  buffer has no \<^verbatim>\<open>case\<close> in the dispatch, the pass through the loop body replaces the
  slice by the empty slice and the loop ends there: whatever bytes follow, the context is
  returned as it was, so no element behind the identifier is parsed.
\<close>

theorem decInformationElement_stops_at_unknown:
  assumes "index mem pdu 0 = Inr b"
    and "iei = (if uint b AND 0x80 = 0x80 then drop_bit 4 (uint b) else uint b)"
    and "iei \<notin> {ieiIMEISVRequest, ieiAuthParamAUTN, ieiAuthParamRAND,
                 ieiAdditional5GSecurityInformation}"
    and "mem' = (if uint b AND 0x80 = 0x80
                 then list_update mem (ptr pdu) (mem ! ptr pdu AND 0x0f) else mem)"
  shows "decInformationElement_body mem ue pdu = Inr (mem', ue, empty_slice mem')
     \<and> decInformationElement mem ue pdu = Inr (mem', ue, empty_slice mem')
     \<and> len (empty_slice mem') = 0 \<and> cap mem' (empty_slice mem') = 0"
  using decInformationElement_body_default [OF assms] decInformationElement_default [OF assms]
  by (simp add: empty_slice_def cap_def)

theorem decInformationElement_stops_at_unknown_witness:
  "index unknown_then_rand \<lparr>ptr = 0, len = 20\<rparr> 0 = Inr 0x10
   \<and> decInformationElement unknown_then_rand ue_profile \<lparr>ptr = 0, len = 20\<rparr>
       = Inr (unknown_then_rand, ue_profile, \<lparr>ptr = 20, len = 0\<rparr>)"
proof -
  have i: "index unknown_then_rand \<lparr>ptr = 0, len = 20\<rparr> 0 = Inr 0x10"
    by (simp add: index_def unknown_then_rand_def)
  have l: "length unknown_then_rand = 20"
    by (simp add: unknown_then_rand_def autn_example_def)
  show ?thesis
    using i decInformationElement_stops_at_unknown [OF i, of "0x10" unknown_then_rand ue_profile]
    by (simp add: iei_defs empty_slice_def l)
qed

text \<open>\<^verbatim>\<open>decUESecurityCapability\<close> takes the length octet and that many bytes.\<close>

lemma decUESecurityCapability_consumes:
  assumes "valid mem q" and "index mem q 0 = Inr l" and "unat l < len q"
  shows "decUESecurityCapability mem ue q =
     Inr (ue, \<lparr>ptr = ptr q + 1 + unat l, len = len q - 1 - unat l\<rparr>)"
  using assms
  by (auto simp: decUESecurityCapability_def valid_def slice_from_def slice_to_def cap_def
      split: if_splits)

text \<open>An index into the rest of a slice is an index into the slice.\<close>

lemma index_shift:
  assumes "p + i = ptr pdu + j" and "i < n \<longleftrightarrow> j < len pdu"
  shows "index mem \<lparr>ptr = p, len = n\<rparr> i = index mem pdu j"
  using assms by (simp add: index_def)

text \<open>
  \<^verbatim>\<open>decSecurityModeCommand\<close> on a buffer of two bytes or more: the algorithms and the key
  set identifier take one byte each, then \<^verbatim>\<open>decUESecurityCapability\<close> is called on the
  rest, and the loop over the information elements runs on what that call leaves.
\<close>

lemma decSecurityModeCommand_capability:
  assumes "valid mem pdu" and "2 \<le> len pdu"
  shows "decSecurityModeCommand mem ue pdu =
     (case decUESecurityCapability mem (ue\<lparr>indent := indent ue + 1\<rparr>)
             \<lparr>ptr = ptr pdu + 2, len = len pdu - 2\<rparr> of
        Inl e \<Rightarrow> Inl e
      | Inr (ue3, pdu3) \<Rightarrow>
          (case decInformationElement mem ue3 pdu3 of
             Inl e \<Rightarrow> Inl e
           | Inr (mem4, ue4, pdu4) \<Rightarrow> Inr (mem4, ue4\<lparr>indent := indent ue4 - 1\<rparr>, pdu4)))"
proof -
  have a: "decNASSecurityAlgorithms mem u pdu = Inr (u, \<lparr>ptr = ptr pdu + 1, len = len pdu - 1\<rparr>)"
    for u
    using assms
    by (simp add: decNASSecurityAlgorithms_def slice_to_def slice_from_def cap_def valid_def)
  have k: "decngKSI mem u \<lparr>ptr = ptr pdu + 1, len = len pdu - 1\<rparr>
      = Inr (u, \<lparr>ptr = ptr pdu + 2, len = len pdu - 2\<rparr>)" for u
    using assms(2) by (auto simp: decngKSI_def index_def slice_from_def numeral_2_eq_2)
  show ?thesis
    by (simp add: decSecurityModeCommand_def a k del: One_nat_def)
qed

lemma decSecurityModeCommand_layout:
  assumes "valid mem pdu" and "index mem pdu 2 = Inr c" and "3 + unat c \<le> len pdu"
  shows "decSecurityModeCommand mem ue pdu =
     (case decInformationElement mem (ue\<lparr>indent := indent ue + 1\<rparr>)
             \<lparr>ptr = ptr pdu + 3 + unat c, len = len pdu - 3 - unat c\<rparr> of
        Inl e \<Rightarrow> Inl e
      | Inr (mem4, ue4, pdu4) \<Rightarrow> Inr (mem4, ue4\<lparr>indent := indent ue4 - 1\<rparr>, pdu4))"
proof -
  let ?q = "\<lparr>ptr = ptr pdu + 2, len = len pdu - 2\<rparr>"
  have v: "valid mem ?q"
    using assms(1,3) by (simp add: valid_def)
  have i: "index mem ?q 0 = Inr c"
    using assms(2) by (subst index_shift [where pdu = pdu and j = "2"]) auto
  have "decUESecurityCapability mem u ?q
      = Inr (u, \<lparr>ptr = ptr pdu + 3 + unat c, len = len pdu - 3 - unat c\<rparr>)" for u
    using decUESecurityCapability_consumes [OF v i, of u] assms(3) by simp
  then show ?thesis
    using assms(3) by (simp add: decSecurityModeCommand_capability [OF assms(1)])
qed

lemma decInformationElement_body_UESecurityCapability:
  assumes "index mem pdu 0 = Inr 0x2e"
  shows "decInformationElement_body mem ue pdu = Inr (mem, ue, empty_slice mem)"
  using decInformationElement_body_default [OF assms, of "0x2e" mem ue] by (simp add: iei_defs)

text \<open>
  Claim C6, as the code has it. The identifier \<open>0x2e\<close> has a name in \<^verbatim>\<open>ieStr\<close> and no
  \<^verbatim>\<open>case\<close> in the \<^verbatim>\<open>switch\<close> of \<^verbatim>\<open>decInformationElement\<close>, whose labels are
  \<open>0xe\<close>, \<open>0x20\<close>, \<open>0x21\<close> and \<open>0x36\<close>: the \<^verbatim>\<open>default\<close> branch discards what is left
  of the buffer and the loop ends, with the context as it was.
  \<^verbatim>\<open>decUESecurityCapability\<close> is the routine that takes one length octet and that many
  value bytes. It is called by \<^verbatim>\<open>decSecurityModeCommand\<close>, at a fixed place: on the
  buffer behind the algorithms octet and the key set identifier octet, before the loop
  over the information elements, which runs on the buffer behind the capability.
\<close>

theorem decInformationElement_no_case_for_UESecurityCapability:
  "(index mem pdu 0 = Inr 0x2e \<longrightarrow>
      decInformationElement mem ue pdu = Inr (mem, ue, empty_slice mem))
   \<and> (valid mem q \<and> index mem q 0 = Inr l \<and> unat l < len q \<longrightarrow>
      decUESecurityCapability mem ue q =
        Inr (ue, \<lparr>ptr = ptr q + 1 + unat l, len = len q - 1 - unat l\<rparr>))
   \<and> (index mem pdu 0 = Inr 0x2e \<longrightarrow>
      decInformationElement_body mem ue pdu = Inr (mem, ue, empty_slice mem))
   \<and> (index mem pdu 0 = Inr 0x0e \<longrightarrow>
      decInformationElement_body mem ue pdu =
        (case decIMEISVRequest mem ue \<lparr>ptr = ptr pdu + 1, len = len pdu - 1\<rparr> of
           Inl e \<Rightarrow> Inl e | Inr (ue', pdu') \<Rightarrow> Inr (mem, ue', pdu')))
   \<and> (index mem pdu 0 = Inr 0x20 \<longrightarrow>
      decInformationElement_body mem ue pdu =
        (case decAuthParamAUTN mem ue \<lparr>ptr = ptr pdu + 1, len = len pdu - 1\<rparr> of
           Inl e \<Rightarrow> Inl e | Inr (ue', pdu') \<Rightarrow> Inr (mem, ue', pdu')))
   \<and> (index mem pdu 0 = Inr 0x21 \<longrightarrow>
      decInformationElement_body mem ue pdu =
        (case decAuthParamRAND mem ue \<lparr>ptr = ptr pdu + 1, len = len pdu - 1\<rparr> of
           Inl e \<Rightarrow> Inl e | Inr (ue', pdu') \<Rightarrow> Inr (mem, ue', pdu')))
   \<and> (index mem pdu 0 = Inr 0x36 \<longrightarrow>
      decInformationElement_body mem ue pdu =
        Inr (mem, ue, \<lparr>ptr = ptr pdu + 1, len = len pdu - 1\<rparr>))
   \<and> (valid mem s \<and> 2 \<le> len s \<longrightarrow>
      decSecurityModeCommand mem ue s =
        (case decUESecurityCapability mem (ue\<lparr>indent := indent ue + 1\<rparr>)
                \<lparr>ptr = ptr s + 2, len = len s - 2\<rparr> of
           Inl e \<Rightarrow> Inl e
         | Inr (ue3, pdu3) \<Rightarrow>
             (case decInformationElement mem ue3 pdu3 of
                Inl e \<Rightarrow> Inl e
              | Inr (mem4, ue4, pdu4) \<Rightarrow> Inr (mem4, ue4\<lparr>indent := indent ue4 - 1\<rparr>, pdu4))))
   \<and> (valid mem s \<and> index mem s 2 = Inr c \<and> 3 + unat c \<le> len s \<longrightarrow>
      decSecurityModeCommand mem ue s =
        (case decInformationElement mem (ue\<lparr>indent := indent ue + 1\<rparr>)
                \<lparr>ptr = ptr s + 3 + unat c, len = len s - 3 - unat c\<rparr> of
           Inl e \<Rightarrow> Inl e
         | Inr (mem4, ue4, pdu4) \<Rightarrow> Inr (mem4, ue4\<lparr>indent := indent ue4 - 1\<rparr>, pdu4)))"
  apply (intro conjI)
  subgoal using decInformationElement_default [of mem pdu "0x2e" "0x2e" mem ue]
    by (simp add: iei_defs)
  subgoal using decUESecurityCapability_consumes [of mem q l ue] by blast
  subgoal using decInformationElement_body_UESecurityCapability [of mem pdu ue] by blast
  subgoal using decInformationElement_body_tagged(3) [of mem pdu "0x0e" ue] by blast
  subgoal using decInformationElement_body_tagged(2) [of mem pdu "0x20" ue] by blast
  subgoal using decInformationElement_body_tagged(1) [of mem pdu "0x21" ue] by blast
  subgoal using decInformationElement_body_tagged(4) [of mem pdu "0x36" ue] by blast
  subgoal using decSecurityModeCommand_capability [of mem s ue] by blast
  subgoal using decSecurityModeCommand_layout [of mem s c ue] by blast
  done

lemma capability_then_rand_index:
  "index capability_then_rand \<lparr>ptr = 0, len = 20\<rparr> 0 = Inr 0x2e"
  by (simp add: index_def capability_then_rand_def)

lemma capability_then_rand_capability:
  "decUESecurityCapability capability_then_rand ue_profile \<lparr>ptr = 1, len = 19\<rparr>
     = Inr (ue_profile, \<lparr>ptr = 3, len = 17\<rparr>)"
  by (simp add: decUESecurityCapability_def index_def slice_from_def slice_to_def cap_def
      capability_then_rand_def autn_example_def)

lemma security_mode_command_ies:
  "decInformationElement security_mode_command u \<lparr>ptr = 8, len = 1\<rparr>
     = Inr (list_update security_mode_command 8 0x01, u, \<lparr>ptr = 9, len = 0\<rparr>)"
proof -
  have b: "decInformationElement_body security_mode_command u \<lparr>ptr = 8, len = 1\<rparr>
       = Inr (list_update security_mode_command 8 0x01, u, \<lparr>ptr = 9, len = 0\<rparr>)"
    by (simp add: decInformationElement_body_def index_def slice_from_def
        decIMEISVRequest_def iei_defs ieStr_def ieStr_entries_def drop_bit_eq_div
        security_mode_command_def)
  have "decInformationElement security_mode_command u \<lparr>ptr = 8, len = 1\<rparr>
       = decInformationElement (list_update security_mode_command 8 0x01) u \<lparr>ptr = 9, len = 0\<rparr>"
    by (rule decInformationElement_next [OF _ b]) simp
  also have "\<dots> = Inr (list_update security_mode_command 8 0x01, u, \<lparr>ptr = 9, len = 0\<rparr>)"
    by (rule decInformationElement_done) simp
  finally show ?thesis .
qed

theorem decInformationElement_no_case_for_UESecurityCapability_witness:
  "index capability_then_rand \<lparr>ptr = 0, len = 20\<rparr> 0 = Inr 0x2e
   \<and> decInformationElement capability_then_rand ue_profile \<lparr>ptr = 0, len = 20\<rparr>
       = Inr (capability_then_rand, ue_profile, \<lparr>ptr = 20, len = 0\<rparr>)
   \<and> valid capability_then_rand \<lparr>ptr = 1, len = 19\<rparr>
   \<and> index capability_then_rand \<lparr>ptr = 1, len = 19\<rparr> 0 = Inr 1
   \<and> decUESecurityCapability capability_then_rand ue_profile \<lparr>ptr = 1, len = 19\<rparr>
       = Inr (ue_profile, \<lparr>ptr = 3, len = 17\<rparr>)
   \<and> decInformationElement_body capability_then_rand ue_profile \<lparr>ptr = 0, len = 20\<rparr>
       = Inr (capability_then_rand, ue_profile, \<lparr>ptr = 20, len = 0\<rparr>)
   \<and> index capability_then_rand \<lparr>ptr = 3, len = 17\<rparr> 0 = Inr 0x21
   \<and> decInformationElement_body capability_then_rand ue_profile \<lparr>ptr = 3, len = 17\<rparr>
       = Inr (capability_then_rand,
              ue_profile\<lparr>AuthParam := (AuthParam ue_profile)\<lparr>rand := Some \<lparr>ptr = 4, len = 16\<rparr>\<rparr>\<rparr>,
              \<lparr>ptr = 20, len = 0\<rparr>)
   \<and> valid security_mode_command \<lparr>ptr = 3, len = 6\<rparr>
   \<and> index security_mode_command \<lparr>ptr = 3, len = 6\<rparr> 2 = Inr 2
   \<and> decUESecurityCapability security_mode_command
         (ue_profile\<lparr>indent := indent ue_profile + 1\<rparr>) \<lparr>ptr = 5, len = 4\<rparr>
       = Inr (ue_profile\<lparr>indent := indent ue_profile + 1\<rparr>, \<lparr>ptr = 8, len = 1\<rparr>)
   \<and> decInformationElement security_mode_command
         (ue_profile\<lparr>indent := indent ue_profile + 1\<rparr>) \<lparr>ptr = 8, len = 1\<rparr>
       = Inr (list_update security_mode_command 8 0x01,
              ue_profile\<lparr>indent := indent ue_profile + 1\<rparr>, \<lparr>ptr = 9, len = 0\<rparr>)
   \<and> decSecurityModeCommand security_mode_command ue_profile \<lparr>ptr = 3, len = 6\<rparr>
       = Inr (list_update security_mode_command 8 0x01, ue_profile, \<lparr>ptr = 9, len = 0\<rparr>)"
proof -
  let ?C = capability_then_rand and ?S = security_mode_command
  let ?U1 = "ue_profile\<lparr>indent := indent ue_profile + 1\<rparr>"
  note T = decInformationElement_no_case_for_UESecurityCapability
  have l: "length ?C = 20"
    by (simp add: capability_then_rand_def autn_example_def)
  have w1: "index ?C \<lparr>ptr = 0, len = 20\<rparr> 0 = Inr 0x2e"
    by (simp add: index_def capability_then_rand_def)
  have w2: "decInformationElement ?C ue_profile \<lparr>ptr = 0, len = 20\<rparr>
       = Inr (?C, ue_profile, \<lparr>ptr = 20, len = 0\<rparr>)"
    and w6: "decInformationElement_body ?C ue_profile \<lparr>ptr = 0, len = 20\<rparr>
       = Inr (?C, ue_profile, \<lparr>ptr = 20, len = 0\<rparr>)"
    using T [where pdu = "\<lparr>ptr = 0, len = 20\<rparr>" and mem = ?C and ue = ue_profile] w1
    by (simp_all add: empty_slice_def l)
  have w3: "valid ?C \<lparr>ptr = 1, len = 19\<rparr>"
    by (simp add: valid_def l)
  have w4: "index ?C \<lparr>ptr = 1, len = 19\<rparr> 0 = Inr 1"
    by (simp add: index_def capability_then_rand_def)
  have w5: "decUESecurityCapability ?C ue_profile \<lparr>ptr = 1, len = 19\<rparr>
       = Inr (ue_profile, \<lparr>ptr = 3, len = 17\<rparr>)"
    using T [where q = "\<lparr>ptr = 1, len = 19\<rparr>" and mem = ?C and ue = ue_profile and l = 1]
      w3 w4
    by simp
  have w7: "index ?C \<lparr>ptr = 3, len = 17\<rparr> 0 = Inr 0x21"
    by (simp add: index_def capability_then_rand_def)
  have r: "decAuthParamRAND ?C u \<lparr>ptr = 4, len = 16\<rparr>
      = Inr (u\<lparr>AuthParam := (AuthParam u)\<lparr>rand := Some \<lparr>ptr = 4, len = 16\<rparr>\<rparr>\<rparr>,
             \<lparr>ptr = 20, len = 0\<rparr>)" for u
    by (simp add: decAuthParamRAND_def slice_to_def slice_from_def cap_def l)
  have w8: "decInformationElement_body ?C ue_profile \<lparr>ptr = 3, len = 17\<rparr>
       = Inr (?C,
              ue_profile\<lparr>AuthParam := (AuthParam ue_profile)\<lparr>rand := Some \<lparr>ptr = 4, len = 16\<rparr>\<rparr>\<rparr>,
              \<lparr>ptr = 20, len = 0\<rparr>)"
    using T [where pdu = "\<lparr>ptr = 3, len = 17\<rparr>" and mem = ?C and ue = ue_profile] w7 r
    by simp
  have w9: "valid ?S \<lparr>ptr = 3, len = 6\<rparr>"
    by (simp add: valid_def security_mode_command_def)
  have w10: "index ?S \<lparr>ptr = 3, len = 6\<rparr> 2 = Inr 2"
    by (simp add: index_def security_mode_command_def)
  have v5: "valid ?S \<lparr>ptr = 5, len = 4\<rparr>"
    by (simp add: valid_def security_mode_command_def)
  have i5: "index ?S \<lparr>ptr = 5, len = 4\<rparr> 0 = Inr 2"
    by (simp add: index_def security_mode_command_def)
  have w11: "decUESecurityCapability ?S ?U1 \<lparr>ptr = 5, len = 4\<rparr> = Inr (?U1, \<lparr>ptr = 8, len = 1\<rparr>)"
    using T [where q = "\<lparr>ptr = 5, len = 4\<rparr>" and mem = ?S and ue = ?U1 and l = 2] v5 i5
    by simp
  note w12 = security_mode_command_ies [of ?U1]
  have u: "?U1\<lparr>indent := indent ?U1 - 1\<rparr> = ue_profile"
    by (simp add: ue_profile_def)
  have w13: "decSecurityModeCommand ?S ue_profile \<lparr>ptr = 3, len = 6\<rparr>
       = Inr (list_update ?S 8 0x01, ue_profile, \<lparr>ptr = 9, len = 0\<rparr>)"
    using T [where s = "\<lparr>ptr = 3, len = 6\<rparr>" and mem = ?S and ue = ue_profile and c = 2]
      w9 w10 w11 w12 u
    by simp
  show ?thesis
    by (intro conjI w1 w2 w3 w4 w5 w6 w7 w8 w9 w10 w11 w12 w13)
qed

text \<open>
  Had the loop called \<^verbatim>\<open>decUESecurityCapability\<close> and gone on, it would have gone on at
  offset 3 and decoded the RAND element that follows. It does not: the context comes back
  without RAND.
\<close>

lemma capability_then_rand_continued:
  "decInformationElement capability_then_rand ue_profile \<lparr>ptr = 3, len = 17\<rparr> =
   Inr (capability_then_rand,
        ue_profile\<lparr>AuthParam := (AuthParam ue_profile)\<lparr>rand := Some \<lparr>ptr = 4, len = 16\<rparr>\<rparr>\<rparr>,
        \<lparr>ptr = 20, len = 0\<rparr>)"
proof -
  have b: "decInformationElement_body capability_then_rand ue_profile \<lparr>ptr = 3, len = 17\<rparr> =
     Inr (capability_then_rand,
        ue_profile\<lparr>AuthParam := (AuthParam ue_profile)\<lparr>rand := Some \<lparr>ptr = 4, len = 16\<rparr>\<rparr>\<rparr>,
        \<lparr>ptr = 20, len = 0\<rparr>)"
    by (simp add: decInformationElement_body_def capability_then_rand_def autn_example_def
        index_def slice_from_def slice_to_def cap_def decAuthParamRAND_def iei_defs ieStr_def
        ieStr_entries_def)
  have "decInformationElement capability_then_rand ue_profile \<lparr>ptr = 3, len = 17\<rparr>
      = decInformationElement capability_then_rand
          (ue_profile\<lparr>AuthParam := (AuthParam ue_profile)\<lparr>rand := Some \<lparr>ptr = 4, len = 16\<rparr>\<rparr>\<rparr>)
          \<lparr>ptr = 20, len = 0\<rparr>"
    by (rule decInformationElement_next [OF _ b]) simp
  also have "\<dots> = Inr (capability_then_rand,
        ue_profile\<lparr>AuthParam := (AuthParam ue_profile)\<lparr>rand := Some \<lparr>ptr = 4, len = 16\<rparr>\<rparr>\<rparr>,
        \<lparr>ptr = 20, len = 0\<rparr>)"
    by (rule decInformationElement_done) simp
  finally show ?thesis .
qed

theorem decInformationElement_UESecurityCapability_counterexample:
  "index capability_then_rand \<lparr>ptr = 0, len = 20\<rparr> 0 = Inr 0x2e
   \<and> decInformationElement capability_then_rand ue_profile \<lparr>ptr = 0, len = 20\<rparr>
       = Inr (capability_then_rand, ue_profile, empty_slice capability_then_rand)
   \<and> rand (AuthParam ue_profile) = None
   \<and> decUESecurityCapability capability_then_rand ue_profile \<lparr>ptr = 1, len = 19\<rparr>
       = Inr (ue_profile, \<lparr>ptr = 3, len = 17\<rparr>)
   \<and> decInformationElement capability_then_rand ue_profile \<lparr>ptr = 3, len = 17\<rparr>
       = Inr (capability_then_rand,
              ue_profile\<lparr>AuthParam := (AuthParam ue_profile)\<lparr>rand := Some \<lparr>ptr = 4, len = 16\<rparr>\<rparr>\<rparr>,
              \<lparr>ptr = 20, len = 0\<rparr>)
   \<and> decInformationElement capability_then_rand ue_profile \<lparr>ptr = 0, len = 20\<rparr>
       \<noteq> decInformationElement capability_then_rand ue_profile \<lparr>ptr = 3, len = 17\<rparr>"
proof -
  note i = capability_then_rand_index
  have d: "decInformationElement capability_then_rand ue_profile \<lparr>ptr = 0, len = 20\<rparr>
       = Inr (capability_then_rand, ue_profile, empty_slice capability_then_rand)"
    using decInformationElement_default [OF i, of "0x2e" capability_then_rand ue_profile]
    by (simp add: iei_defs)
  have n: "rand (AuthParam ue_profile) = None"
    by (simp add: ue_profile_def)
  have "ue_profile
      \<noteq> ue_profile\<lparr>AuthParam := (AuthParam ue_profile)\<lparr>rand := Some \<lparr>ptr = 4, len = 16\<rparr>\<rparr>\<rparr>"
  proof
    assume "ue_profile
      = ue_profile\<lparr>AuthParam := (AuthParam ue_profile)\<lparr>rand := Some \<lparr>ptr = 4, len = 16\<rparr>\<rparr>\<rparr>"
    then have "rand (AuthParam ue_profile)
      = rand (AuthParam (ue_profile\<lparr>AuthParam :=
          (AuthParam ue_profile)\<lparr>rand := Some \<lparr>ptr = 4, len = 16\<rparr>\<rparr>\<rparr>))"
      by simp
    with n show False by simp
  qed
  with i d n capability_then_rand_capability capability_then_rand_continued show ?thesis
    by simp
qed

text \<open>Enough passes: as many as the slice has bytes.\<close>

lemma decInformationElement_iter_enough:
  "len pdu \<le> n \<Longrightarrow>
   decInformationElement_iter n mem ue pdu = Some (decInformationElement mem ue pdu)"
proof (induction n arbitrary: mem ue pdu)
  case 0
  then show ?case by (simp add: decInformationElement_done)
next
  case (Suc n)
  show ?case
  proof (cases "0 < len pdu")
    case False
    then show ?thesis by (simp add: decInformationElement_done)
  next
    case True
    show ?thesis
    proof (cases "decInformationElement_body mem ue pdu")
      case (Inl e)
      with True show ?thesis
        by (simp add: decInformationElement_panic)
    next
      case (Inr r)
      obtain mem' ue' pdu' where r: "r = (mem', ue', pdu')"
        by (cases r) auto
      have "len pdu' < len pdu"
        using decInformationElement_body_len [of mem ue pdu mem' ue' pdu'] Inr r True by simp
      with Suc.prems have "len pdu' \<le> n" by simp
      from Suc.IH [OF this] True Inr r show ?thesis
        by (simp add: decInformationElement_next [of pdu mem ue mem' ue' pdu'])
    qed
  qed
qed

text \<open>
  Claim C9. \<^verbatim>\<open>decInformationElement\<close> terminates on every buffer: a pass through the
  loop body that returns leaves a strictly shorter slice (a pass that panics ends the
  call), so the loop is over after at most as many passes as the slice has bytes.
\<close>

theorem decInformationElement_terminates:
  "(0 < len pdu \<and> decInformationElement_body mem ue pdu = Inr (mem', ue', pdu')
      \<longrightarrow> len pdu' < len pdu)
   \<and> decInformationElement_iter (len pdu) mem ue pdu
       = Some (decInformationElement mem ue pdu)"
  using decInformationElement_body_len [of mem ue pdu mem' ue' pdu']
    decInformationElement_iter_enough [of pdu "len pdu" mem ue]
  by auto

theorem decInformationElement_terminates_witness:
  "0 < len \<lparr>ptr = 0, len = 2\<rparr>
   \<and> decInformationElement_body [0xe1, 0x36] ue_profile \<lparr>ptr = 0, len = 2\<rparr>
       = Inr ([0x01, 0x36], ue_profile, \<lparr>ptr = 1, len = 1\<rparr>)
   \<and> len \<lparr>ptr = 1, len = 1\<rparr> < len \<lparr>ptr = 0, len = 2\<rparr>
   \<and> decInformationElement_iter 2 [0xe1, 0x36] ue_profile \<lparr>ptr = 0, len = 2\<rparr>
       = Some (Inr ([0x01, 0x36], ue_profile, \<lparr>ptr = 2, len = 0\<rparr>))
   \<and> decInformationElement [0xe1, 0x36] ue_profile \<lparr>ptr = 0, len = 2\<rparr>
       = Inr ([0x01, 0x36], ue_profile, \<lparr>ptr = 2, len = 0\<rparr>)"
proof -
  have b: "decInformationElement_body [0xe1, 0x36] ue_profile \<lparr>ptr = 0, len = 2\<rparr>
       = Inr ([0x01, 0x36], ue_profile, \<lparr>ptr = 1, len = 1\<rparr>)"
    by (simp add: decInformationElement_body_def index_def slice_from_def
        decIMEISVRequest_def iei_defs ieStr_def ieStr_entries_def drop_bit_eq_div)
  have b2: "decInformationElement_body [0x01, 0x36] ue_profile \<lparr>ptr = 1, len = 1\<rparr>
       = Inr ([0x01, 0x36], ue_profile, \<lparr>ptr = 2, len = 0\<rparr>)"
    by (simp add: decInformationElement_body_def index_def slice_from_def
        iei_defs ieStr_def ieStr_entries_def)
  have "decInformationElement [0xe1, 0x36] ue_profile \<lparr>ptr = 0, len = 2\<rparr>
       = decInformationElement [0x01, 0x36] ue_profile \<lparr>ptr = 1, len = 1\<rparr>"
    by (rule decInformationElement_next [OF _ b]) simp
  also have "\<dots> = decInformationElement [0x01, 0x36] ue_profile \<lparr>ptr = 2, len = 0\<rparr>"
    by (rule decInformationElement_next [OF _ b2]) simp
  also have "\<dots> = Inr ([0x01, 0x36], ue_profile, \<lparr>ptr = 2, len = 0\<rparr>)"
    by (rule decInformationElement_done) simp
  finally have d: "decInformationElement [0xe1, 0x36] ue_profile \<lparr>ptr = 0, len = 2\<rparr>
       = Inr ([0x01, 0x36], ue_profile, \<lparr>ptr = 2, len = 0\<rparr>)" .
  show ?thesis
    using decInformationElement_terminates
      [of "\<lparr>ptr = 0, len = 2\<rparr>" "[0xe1, 0x36]" ue_profile "[0x01, 0x36]" ue_profile
        "\<lparr>ptr = 1, len = 1\<rparr>"] b d
    by simp
qed


subsection \<open>The derivation of RES*\<close>

text \<open>\<^verbatim>\<open>PutUint16\<close> of a length writes its high byte, then its low byte.\<close>

lemma PutUint16_of_nat: "PutUint16 (of_nat n) = [of_nat (n div 256), of_nat (n mod 256)]"
proof -
  have "(ucast (drop_bit 8 (of_nat n :: 16 word)) :: byte) = of_nat (drop_bit 8 n)"
    by (rule bit_word_eqI) (auto simp: bit_simps)
  then have hi: "(ucast (drop_bit 8 (of_nat n :: 16 word)) :: byte) = of_nat (n div 256)"
    by (simp add: drop_bit_eq_div)
  have "(ucast (of_nat n :: 16 word) :: byte) = of_nat (take_bit 8 n)"
    by (rule bit_word_eqI) (auto simp: bit_simps)
  then have lo: "(ucast (of_nat n :: 16 word) :: byte) = of_nat (n mod 256)"
    by (simp add: take_bit_eq_mod)
  show ?thesis
    by (simp add: PutUint16_def hi lo)
qed

lemma decimal_small: "n < 10 \<Longrightarrow> decimal n = [''0123456789'' ! n]"
  by (subst decimal.simps) simp

lemma decimal_step: "10 \<le> n \<Longrightarrow> decimal n = decimal (n div 10) @ [''0123456789'' ! (n mod 10)]"
  by (subst decimal.simps) simp

lemma zero_fill_1: "zero_fill 3 [a] = [CHR ''0'', CHR ''0'', a]"
  by (simp add: zero_fill_def numeral_eq_Suc)

lemma zero_fill_2: "zero_fill 3 [a, b] = [CHR ''0'', a, b]"
  by (simp add: zero_fill_def)

lemma zero_fill_3: "zero_fill 3 [a, b, c] = [a, b, c]"
  by (simp add: zero_fill_def)

lemma zero_fill_three_digits:
  assumes "k < 1000"
  shows "zero_fill 3 (decimal k) =
     [''0123456789'' ! (k div 100), ''0123456789'' ! (k div 10 mod 10), ''0123456789'' ! (k mod 10)]"
proof -
  consider "k < 10" | "10 \<le> k" "k < 100" | "100 \<le> k"
    by linarith
  then show ?thesis
  proof cases
    case 1
    then have "decimal k = [''0123456789'' ! k]"
      by (rule decimal_small)
    with 1 show ?thesis
      by (simp add: zero_fill_1)
  next
    case 2
    then have "k div 10 < 10" by simp
    then have "decimal (k div 10) = [''0123456789'' ! (k div 10)]"
      by (rule decimal_small)
    with 2 have "decimal k = [''0123456789'' ! (k div 10), ''0123456789'' ! (k mod 10)]"
      by (simp add: decimal_step)
    with 2 show ?thesis
      by (simp add: zero_fill_2)
  next
    case 3
    then have a: "10 \<le> k" and b: "10 \<le> k div 10" and c: "k div 10 div 10 < 10"
      using assms by simp_all
    have d: "k div 10 div 10 = k div 100"
      by (simp add: div_mult2_eq [symmetric])
    have "decimal k = decimal (k div 10) @ [''0123456789'' ! (k mod 10)]"
      using a by (rule decimal_step)
    also have "decimal (k div 10) = decimal (k div 10 div 10) @ [''0123456789'' ! (k div 10 mod 10)]"
      using b by (rule decimal_step)
    also have "decimal (k div 10 div 10) = [''0123456789'' ! (k div 100)]"
      using c by (simp only: decimal_small d)
    finally show ?thesis
      by (simp add: zero_fill_3)
  qed
qed

lemma Sprintf_03d_three_digits:
  assumes "0 \<le> n" and "n < 1000"
  shows "Sprintf_03d n =
     [''0123456789'' ! (nat n div 100), ''0123456789'' ! (nat n div 10 mod 10),
      ''0123456789'' ! (nat n mod 10)]"
  using assms zero_fill_three_digits [of "nat n"] by (simp add: Sprintf_03d_def)

text \<open>
  The message that \<^verbatim>\<open>ComputeRESstar\<close> hands to the MAC, for all \<open>mcc\<close> and \<open>mnc\<close>.
\<close>

lemma ComputeRESstar_message:
  "ComputeRESstar hmac mcc mnc rand' res ck ik =
     (let p0 = map of_char (''5G:mnc'' @ Sprintf_03d mnc @ ''.mcc'' @ Sprintf_03d mcc
                 @ ''.3gppnetwork.org'');
          out = hmac (ck @ ik)
                  ([0x6B] @ p0 @ length16 p0 @ rand' @ length16 rand' @ res @ length16 res)
      in if length out < 16 then Inl SliceBoundsOutOfRange
         else Inr (drop (length out - 16) out))"
  by (simp add: ComputeRESstar_def Let_def length16_def PutUint16_of_nat)

text \<open>For a code from 0 to 999, \<^verbatim>\<open>%03d\<close> writes the three digits.\<close>

lemma Sprintf_03d_eq_three_digits:
  assumes "0 \<le> n" and "n \<le> 999"
  shows "Sprintf_03d n = three_digits n"
proof -
  have "nat n div 100 < 10"
    using assms by simp
  then show ?thesis
    using assms Sprintf_03d_three_digits [of n] by (simp add: three_digits_def)
qed

lemma ComputeRESstar_eq:
  assumes "0 \<le> mcc" and "mcc \<le> 999" and "0 \<le> mnc" and "mnc \<le> 999"
  shows "ComputeRESstar hmac mcc mnc rand' res ck ik =
     (let out = hmac (ck @ ik) (annexA4_S mcc mnc rand' res)
      in if length out < 16 then Inl SliceBoundsOutOfRange
         else Inr (drop (length out - 16) out))"
  using assms
  by (simp add: ComputeRESstar_message Let_def annexA4_S_def serving_network_name_def
      Sprintf_03d_eq_three_digits)

text \<open>
  Claim C2, as the code has it. For all \<open>mcc\<close> and \<open>mnc\<close> from 0 to 999 and all byte
  strings \<open>rand\<close>, \<open>res\<close>, \<open>ck\<close>, \<open>ik\<close>, \<^verbatim>\<open>ComputeRESstar\<close> returns the last 16 bytes
  (bytes \<open>[len-16:len)\<close>, not the first 16) of the 32-byte HMAC-SHA-256 keyed with
  \<open>ck \<parallel> ik\<close> over \<open>S = 0x6B \<parallel> P0 \<parallel> L0 \<parallel> rand \<parallel> L1 \<parallel> res \<parallel> L2\<close>, where \<open>P0\<close> is the
  serving network name with the three digits of \<open>mnc\<close> and of \<open>mcc\<close>.
\<close>

theorem ComputeRESstar_annexA4:
  assumes "0 \<le> mcc" and "mcc \<le> 999" and "0 \<le> mnc" and "mnc \<le> 999"
    and "length (hmac (ck @ ik) (annexA4_S mcc mnc rand' res)) = 32"
  shows "ComputeRESstar hmac mcc mnc rand' res ck ik
           = Inr (drop (length (hmac (ck @ ik) (annexA4_S mcc mnc rand' res)) - 16)
                    (hmac (ck @ ik) (annexA4_S mcc mnc rand' res)))
     \<and> ComputeRESstar hmac mcc mnc rand' res ck ik
           = Inr (drop 16 (hmac (ck @ ik) (annexA4_S mcc mnc rand' res)))
     \<and> length (drop 16 (hmac (ck @ ik) (annexA4_S mcc mnc rand' res))) = 16"
  using assms by (simp add: ComputeRESstar_eq)

lemma serving_network_name_1_1:
  "serving_network_name 1 1 = map of_char ''5G:mnc001.mcc001.3gppnetwork.org''"
  by (simp add: serving_network_name_def three_digits_def)

lemma annexA4_S_1_1: "annexA4_S 1 1 zeros16 zeros16 =
    [0x6B] @ map of_char ''5G:mnc001.mcc001.3gppnetwork.org'' @ [0x00, 0x20]
    @ zeros16 @ [0x00, 0x10] @ zeros16 @ [0x00, 0x10]"
  by (simp add: annexA4_S_def serving_network_name_1_1 length16_def zeros16_def)

theorem ComputeRESstar_annexA4_witness:
  "(0::int) \<le> 1 \<and> (1::int) \<le> 999
   \<and> length (hmac_double (zeros16 @ zeros16) (annexA4_S 1 1 zeros16 zeros16)) = 32
   \<and> annexA4_S 1 1 zeros16 zeros16 =
       [0x6B] @ map of_char ''5G:mnc001.mcc001.3gppnetwork.org'' @ [0x00, 0x20]
       @ zeros16 @ [0x00, 0x10] @ zeros16 @ [0x00, 0x10]
   \<and> ComputeRESstar hmac_double 1 1 zeros16 zeros16 zeros16 zeros16
       = Inr [0, 0, 0x10, 0, 0, 0, 0, 0, 0, 0, 0, 0, 0, 0, 0, 0]"
proof -
  have h: "hmac_double (zeros16 @ zeros16) (annexA4_S 1 1 zeros16 zeros16)
      = [0x10, 0, 0, 0, 0, 0, 0, 0, 0, 0, 0, 0, 0, 0, 0, 0,
         0, 0, 0x10, 0, 0, 0, 0, 0, 0, 0, 0, 0, 0, 0, 0, 0]"
    unfolding annexA4_S_1_1 by (simp add: hmac_double_def zeros16_def)
  have l: "length (hmac_double (zeros16 @ zeros16) (annexA4_S 1 1 zeros16 zeros16)) = 32"
    unfolding h by simp
  show ?thesis
    using ComputeRESstar_annexA4 [where hmac = hmac_double and ck = zeros16 and ik = zeros16
        and mcc = 1 and mnc = 1 and rand' = zeros16 and res = zeros16] l annexA4_S_1_1
    unfolding h by simp
qed

text \<open>
  Outside 0 to 999 the code does not write three digits: \<^verbatim>\<open>%03d\<close> writes 1000 with
  four digits and \<open>-1\<close> with a sign and two digits, so the MAC is taken over another
  message than the one with a three-digit name, whatever its three digits are.
\<close>

lemma serving_network_name_length: "length (serving_network_name mcc mnc) = 32"
  by (simp add: serving_network_name_def three_digits_def)

lemma Sprintf_03d_examples:
  "Sprintf_03d 1000 = ''1000''" "Sprintf_03d (- 1) = ''-01''"
  by code_simp+

lemma ComputeRESstar_message_1000_minus_1:
  "ComputeRESstar hmac 1000 (- 1) rand' res ck ik =
     (let out = hmac (ck @ ik)
                  ([0x6B] @ map of_char ''5G:mnc-01.mcc1000.3gppnetwork.org'' @ [0x00, 0x21]
                   @ rand' @ length16 rand' @ res @ length16 res)
      in if length out < 16 then Inl SliceBoundsOutOfRange
         else Inr (drop (length out - 16) out))"
  by (simp add: ComputeRESstar_message Sprintf_03d_examples length16_def)

theorem ComputeRESstar_out_of_range_counterexample:
  "Sprintf_03d 1000 = ''1000'' \<and> Sprintf_03d (- 1) = ''-01''
   \<and> length (hmac_mirror (zeros16 @ zeros16) (annexA4_S 1000 (- 1) zeros16 zeros16)) = 32
   \<and> ComputeRESstar hmac_mirror 1000 (- 1) zeros16 zeros16 zeros16 zeros16
       = Inr (rev (0x6B # map of_char ''5G:mnc-01.mcc10''))
   \<and> drop 16 (hmac_mirror (zeros16 @ zeros16) (annexA4_S 1000 (- 1) zeros16 zeros16))
       = rev (0x6B # map of_char ''5G:mnc000.mcc00'')
   \<and> ComputeRESstar hmac_mirror 1000 (- 1) zeros16 zeros16 zeros16 zeros16
       \<noteq> Inr (drop 16 (hmac_mirror (zeros16 @ zeros16)
                         (annexA4_S 1000 (- 1) zeros16 zeros16)))"
proof -
  have c: "ComputeRESstar hmac_mirror 1000 (- 1) zeros16 zeros16 zeros16 zeros16
       = Inr (rev (0x6B # map of_char ''5G:mnc-01.mcc10''))"
    by (simp add: ComputeRESstar_message_1000_minus_1 hmac_mirror_def zeros16_def length16_def)
  have n: "serving_network_name 1000 (- 1) = map of_char ''5G:mnc000.mcc000.3gppnetwork.org''"
    by (simp add: serving_network_name_def three_digits_def)
  have s: "hmac_mirror (zeros16 @ zeros16) (annexA4_S 1000 (- 1) zeros16 zeros16)
       = rev (0x6B # map of_char ''5G:mnc000.mcc000.3gppnetwork.or'')"
    by (simp add: annexA4_S_def n hmac_mirror_def zeros16_def length16_def)
  show ?thesis
    unfolding c s using Sprintf_03d_examples by simp
qed

subsection \<open>Decode and the security header\<close>

lemma Decode_strips_once:
  assumes "valid mem pdu" and "7 \<le> len pdu" and "index mem pdu 1 = Inr sh" and "sh \<noteq> 0"
    and "securityHeaderParsed ue = False"
  shows "Decode lib mem ue pdu l =
     Decode lib mem (ue\<lparr>securityHeaderParsed := True\<rparr>)
       \<lparr>ptr = ptr pdu + 2 + 5, len = len pdu - 2 - 5\<rparr> (l - 1 - 1 - 5)"
proof -
  have s: "mem ! Suc (ptr pdu) = sh"
    using assms(3) by (simp add: index_def split: if_splits)
  have u: "uint sh \<noteq> 0"
    using assms(4) by (simp add: uint_0_iff)
  have c: "4 \<le> length mem - Suc (Suc (ptr pdu))"
    using assms(1,2) by (simp add: valid_def)
  show ?thesis
    using assms(2,5) s u c
    by (subst Decode.simps)
      (auto simp: index_def slice_from_def slice_to_def cap_def add.commute)
qed

lemma Decode_stripped:
  assumes "securityHeaderParsed ue" and "2 \<le> len pdu"
  shows "Decode lib mem ue pdu l =
     Decode_message lib mem ue \<lparr>ptr = ptr pdu + 2, len = len pdu - 2\<rparr>"
  using assms
  by (subst Decode.simps) (auto simp: index_def slice_from_def numeral_2_eq_2)

lemma Decode_plain:
  assumes "index mem pdu 1 = Inr 0"
  shows "Decode lib mem ue pdu l =
     Decode_message lib mem ue \<lparr>ptr = ptr pdu + 2, len = len pdu - 2\<rparr>"
proof -
  have "2 \<le> len pdu" "mem ! Suc (ptr pdu) = 0"
    using assms by (auto simp: index_def split: if_splits)
  then show ?thesis
    by (subst Decode.simps) (auto simp: index_def slice_from_def numeral_2_eq_2)
qed

lemma Decode_message_resets:
  "Decode_message lib mem ue pdu = Inr (mem', ue', pdu', t) \<Longrightarrow> securityHeaderParsed ue' = False"
  by (auto simp: Decode_message_def Let_def split: sum.splits if_splits)

lemma Decode_resets:
  "Decode lib mem ue pdu l = Inr (mem', ue', pdu', t) \<Longrightarrow> securityHeaderParsed ue' = False"
proof (induction lib mem ue pdu l rule: Decode.induct)
  case (1 lib mem ue pdu l)
  from "1.prems" show ?case
    apply (subst (asm) Decode.simps)
    apply (auto split: sum.splits if_splits dest: Decode_message_resets "1.IH")
    done
qed


text \<open>
  Claim C3. Entered with \<^verbatim>\<open>securityHeaderParsed\<close> false on a buffer whose security
  header type is not plain, \<^verbatim>\<open>Decode\<close> takes the two header bytes, then four MAC bytes
  and one sequence number byte, sets the flag and calls itself on the rest. Entered with
  the flag set, it goes on to the message type right after the two header bytes, whatever
  the security header type is, so nothing is stripped a second time. Whenever \<^verbatim>\<open>Decode\<close>
  returns, the flag is false again.
\<close>

theorem Decode_strips_security_header_once:
  "(valid mem pdu \<and> 7 \<le> len pdu \<and> index mem pdu 1 = Inr sh \<and> sh \<noteq> 0
      \<and> securityHeaderParsed ue = False \<longrightarrow>
      Decode lib mem ue pdu l =
        Decode lib mem (ue\<lparr>securityHeaderParsed := True\<rparr>)
          \<lparr>ptr = ptr pdu + 2 + 5, len = len pdu - 2 - 5\<rparr> (l - 1 - 1 - 5))
   \<and> (securityHeaderParsed ue \<and> 2 \<le> len pdu \<longrightarrow>
      Decode lib mem ue pdu l =
        Decode_message lib mem ue \<lparr>ptr = ptr pdu + 2, len = len pdu - 2\<rparr>)
   \<and> (Decode lib mem ue pdu l = Inr (mem', ue', pdu', t) \<longrightarrow>
      securityHeaderParsed ue' = False)"
  using Decode_strips_once [of mem pdu sh ue lib l] Decode_stripped [of ue pdu lib mem l]
    Decode_resets [of lib mem ue pdu l mem' ue' pdu' t]
  by blast

lemma Decode_message_other:
  assumes "index mem pdu 0 = Inr t" and "uint t \<noteq> 0x56" and "uint t \<noteq> 0x5d"
  shows "Decode_message lib mem ue pdu =
    Inr (mem, ue\<lparr>indent := indent ue, securityHeaderParsed := False\<rparr>,
         \<lparr>ptr = ptr pdu + 1, len = len pdu - 1\<rparr>, uint t)"
proof -
  have "0 < len pdu"
    using assms(1) by (auto simp: index_def split: if_splits)
  then show ?thesis
    using assms
    by (simp add: Decode_message_def slice_from_def MessageTypeAuthenticationRequest_def
        MessageTypeSecurityModeCommand_def)
qed

theorem Decode_strips_security_header_once_witness:
  "valid wrapped_pdu \<lparr>ptr = 0, len = 10\<rparr> \<and> index wrapped_pdu \<lparr>ptr = 0, len = 10\<rparr> 1 = Inr 2
   \<and> securityHeaderParsed ue_profile = False
   \<and> Decode crypto_double wrapped_pdu ue_profile \<lparr>ptr = 0, len = 10\<rparr> 10
       = Decode crypto_double wrapped_pdu (ue_profile\<lparr>securityHeaderParsed := True\<rparr>)
           \<lparr>ptr = 7, len = 3\<rparr> 3
   \<and> index wrapped_pdu \<lparr>ptr = 7, len = 3\<rparr> 1 = Inr 2
   \<and> Decode crypto_double wrapped_pdu (ue_profile\<lparr>securityHeaderParsed := True\<rparr>)
           \<lparr>ptr = 7, len = 3\<rparr> 3
       = Decode_message crypto_double wrapped_pdu (ue_profile\<lparr>securityHeaderParsed := True\<rparr>)
           \<lparr>ptr = 9, len = 1\<rparr>
   \<and> Decode crypto_double wrapped_pdu ue_profile \<lparr>ptr = 0, len = 10\<rparr> 10
       = Inr (wrapped_pdu, ue_profile, \<lparr>ptr = 10, len = 0\<rparr>, 0x41)"
proof -
  let ?P = "\<lparr>ptr = 0, len = 10\<rparr>" and ?Q = "\<lparr>ptr = 7, len = 3\<rparr>"
  let ?U = "ue_profile\<lparr>securityHeaderParsed := True\<rparr>"
  have v: "valid wrapped_pdu ?P"
    by (simp add: valid_def wrapped_pdu_def)
  have i: "index wrapped_pdu ?P 1 = Inr 2"
    by (simp add: index_def wrapped_pdu_def)
  have f: "securityHeaderParsed ue_profile = False"
    by (simp add: ue_profile_def)
  have i2: "index wrapped_pdu ?Q 1 = Inr 2"
    by (simp add: index_def wrapped_pdu_def)
  have a: "Decode crypto_double wrapped_pdu ue_profile ?P 10 = Decode crypto_double wrapped_pdu ?U ?Q 3"
    using Decode_strips_security_header_once [of wrapped_pdu ?P 2 ue_profile crypto_double 10] v i f by simp
  have b: "Decode crypto_double wrapped_pdu ?U ?Q 3
      = Decode_message crypto_double wrapped_pdu ?U \<lparr>ptr = 9, len = 1\<rparr>"
    using Decode_strips_security_header_once [of wrapped_pdu ?Q 2 ?U crypto_double 3] by simp
  have t: "index wrapped_pdu \<lparr>ptr = 9, len = 1\<rparr> 0 = Inr 0x41"
    by (simp add: index_def wrapped_pdu_def)
  have u: "?U\<lparr>indent := indent ?U, securityHeaderParsed := False\<rparr> = ue_profile"
    by (simp add: ue_profile_def)
  have c: "Decode_message crypto_double wrapped_pdu ?U \<lparr>ptr = 9, len = 1\<rparr>
      = Inr (wrapped_pdu, ue_profile, \<lparr>ptr = 10, len = 0\<rparr>, 0x41)"
    using Decode_message_other [OF t, of crypto_double ?U] u by simp
  show ?thesis
    using v i f i2 a b c by simp
qed

subsection \<open>Buffers that end too early\<close>







































subsection \<open>Authentication request: the MAC check\<close>

text \<open>No decoder writes \<^verbatim>\<open>RESstar\<close>.\<close>

lemma decAuthParamAUTN_RESstar:
  "decAuthParamAUTN mem ue pdu = Inr (ue', pdu') \<Longrightarrow>
   RESstar (AuthParam ue') = RESstar (AuthParam ue)"
  by (auto simp: decAuthParamAUTN_def split: sum.splits)

lemma decAuthParamRAND_RESstar:
  "decAuthParamRAND mem ue pdu = Inr (ue', pdu') \<Longrightarrow>
   RESstar (AuthParam ue') = RESstar (AuthParam ue)"
  by (auto simp: decAuthParamRAND_def split: sum.splits)

lemma decIMEISVRequest_ue:
  "decIMEISVRequest mem ue pdu = Inr (ue', pdu') \<Longrightarrow> ue' = ue"
  by (auto simp: decIMEISVRequest_def split: sum.splits)

lemma decInformationElement_body_RESstar:
  assumes "decInformationElement_body mem ue pdu = Inr (mem', ue', pdu')"
  shows "RESstar (AuthParam ue') = RESstar (AuthParam ue)"
proof (cases "index mem pdu 0")
  case (Inl e)
  with assms show ?thesis
    by (simp add: decInformationElement_body_def)
next
  case (Inr b)
  show ?thesis
  proof (cases "uint b AND 0x80 = 0x80")
    case True
    with assms Inr show ?thesis
      by (auto simp: decInformationElement_body_def Let_def
          split: sum.splits if_splits
          dest: decIMEISVRequest_ue decAuthParamAUTN_RESstar decAuthParamRAND_RESstar)
  next
    case False
    show ?thesis
    proof (cases "slice_from pdu 1")
      case (Inl e)
      with assms Inr False show ?thesis
        by (simp add: decInformationElement_body_def)
    next
      case p: (Inr p1)
      with assms Inr False show ?thesis
        by (auto simp: decInformationElement_body_def Let_def
            split: sum.splits if_splits
            dest: decIMEISVRequest_ue decAuthParamAUTN_RESstar decAuthParamRAND_RESstar)
    qed
  qed
qed

lemma decInformationElement_RESstar:
  "decInformationElement mem ue pdu = Inr (mem', ue', pdu') \<Longrightarrow>
   RESstar (AuthParam ue') = RESstar (AuthParam ue)"
proof (induction mem ue pdu rule: decInformationElement.induct)
  case (1 mem ue pdu)
  show ?case
  proof (cases "0 < len pdu")
    case False
    with "1.prems" show ?thesis
      by (simp add: decInformationElement_done)
  next
    case True
    show ?thesis
    proof (cases "decInformationElement_body mem ue pdu")
      case (Inl e)
      with True "1.prems" show ?thesis
        by (simp add: decInformationElement_panic)
    next
      case (Inr r)
      obtain m1 u1 p1 where r: "r = (m1, u1, p1)"
        by (cases r) auto
      have b: "decInformationElement_body mem ue pdu = Inr (m1, u1, p1)"
        using Inr r by simp
      have "decInformationElement m1 u1 p1 = Inr (mem', ue', pdu')"
        using "1.prems" decInformationElement_next [OF True b] by simp
      then have "RESstar (AuthParam ue') = RESstar (AuthParam u1)"
        using "1.IH" [OF True b refl refl] by simp
      also have "\<dots> = RESstar (AuthParam ue)"
        using b by (rule decInformationElement_body_RESstar)
      finally show ?thesis .
    qed
  qed
qed

lemma DeepEqual_bytes: "DeepEqual mem a b \<Longrightarrow> elems mem a = vals b"
  by (auto simp: DeepEqual_def elems_def vals_def split: option.splits)

lemma decngKSI_ue: "decngKSI mem ue pdu = Inr (ue', pdu') \<Longrightarrow> ue' = ue"
  by (auto simp: decngKSI_def split: sum.splits)

lemma decABBA_ue: "decABBA mem ue pdu = Inr (ue', pdu') \<Longrightarrow> ue' = ue"
  by (auto simp: decABBA_def split: sum.splits)

text \<open>
  Claim C1, as the code has it. When the request is decoded and the MACA that the UE
  computes differs from the MAC of AUTN, \<^verbatim>\<open>decAuthenticationRequest\<close> does not compute
  RES*: \<^verbatim>\<open>RESstar\<close> keeps the value it had. But the function has no result and simply
  returns, as it does after a successful check: nothing reports the failure to the
  caller, where the source notes \<^verbatim>\<open>// need response for error.\<close>
\<close>

theorem decAuthenticationRequest_MAC_mismatch:
  assumes "decngKSI mem (ue\<lparr>indent := indent ue + 1\<rparr>) pdu = Inr (ue1, pdu1)"
    and "decABBA mem ue1 pdu1 = Inr (ue2, pdu2)"
    and "decInformationElement mem ue2 pdu2 = Inr (mem3, ue3, pdu3)"
    and "computeVector lib mem3 (ue3\<lparr>indent := indent ue3 - 1\<rparr>) = Inr m"
    and "elems mem3 (mac (AuthParam ue3)) \<noteq> vals (mil_MACA m)"
  shows "decAuthenticationRequest lib mem ue pdu = Inr (mem3, ue3\<lparr>indent := indent ue\<rparr>, pdu3)
     \<and> RESstar (AuthParam (ue3\<lparr>indent := indent ue\<rparr>)) = RESstar (AuthParam ue)"
proof -
  have d: "DeepEqual mem3 (mac (AuthParam ue3)) (mil_MACA m) = False"
    using assms(5) DeepEqual_bytes by blast
  have "ue1 = ue\<lparr>indent := indent ue + 1\<rparr>" "ue2 = ue1"
    using assms(1,2) by (auto dest: decngKSI_ue decABBA_ue)
  then have "RESstar (AuthParam ue3) = RESstar (AuthParam ue)"
    using decInformationElement_RESstar [OF assms(3)] by simp
  then show ?thesis
    using assms(1-4) d by (simp add: decAuthenticationRequest_def)
qed


text \<open>Both example requests have the same layout.\<close>

lemma request_layout:
  assumes "take 26 mem = [0x7e, 0x00, 0x56, 0x00, 0x02, 0x00, 0x00, 0x21] @ zeros16 @ [0x20, 0x10]"
    and "length mem = 42"
  shows "decngKSI mem u \<lparr>ptr = 3, len = 39\<rparr> = Inr (u, \<lparr>ptr = 4, len = 38\<rparr>)"
    and "decABBA mem u \<lparr>ptr = 4, len = 38\<rparr> = Inr (u, \<lparr>ptr = 7, len = 35\<rparr>)"
    and "decInformationElement mem u \<lparr>ptr = 7, len = 35\<rparr> =
           Inr (mem,
                u\<lparr>AuthParam := (AuthParam u)\<lparr>rand := Some \<lparr>ptr = 8, len = 16\<rparr>,
                       autn := Some \<lparr>ptr = 26, len = 16\<rparr>,
                       seqxorak := Some \<lparr>ptr = 26, len = 6\<rparr>,
                       amf := Some \<lparr>ptr = 32, len = 2\<rparr>,
                       mac := Some \<lparr>ptr = 34, len = 8\<rparr>\<rparr>\<rparr>,
                \<lparr>ptr = 42, len = 0\<rparr>)"
proof -
  have n: "mem ! i = take 26 mem ! i" if "i < 26" for i
    using that by simp
  have m: "mem ! 4 = 2" "mem ! 7 = 0x21" "mem ! 24 = 0x20" "mem ! 25 = 0x10"
    by (simp_all add: n assms(1) zeros16_def)
  show "decngKSI mem u \<lparr>ptr = 3, len = 39\<rparr> = Inr (u, \<lparr>ptr = 4, len = 38\<rparr>)"
    by (simp add: decngKSI_def index_def slice_from_def)
  show "decABBA mem u \<lparr>ptr = 4, len = 38\<rparr> = Inr (u, \<lparr>ptr = 7, len = 35\<rparr>)"
    by (simp add: decABBA_def index_def slice_from_def slice_to_def cap_def m assms(2))
  have b1: "decInformationElement_body mem u \<lparr>ptr = 7, len = 35\<rparr> =
      Inr (mem, u\<lparr>AuthParam := (AuthParam u)\<lparr>rand := Some \<lparr>ptr = 8, len = 16\<rparr>\<rparr>\<rparr>,
           \<lparr>ptr = 24, len = 18\<rparr>)"
    by (simp add: decInformationElement_body_def index_def slice_from_def slice_to_def cap_def
        decAuthParamRAND_def iei_defs ieStr_def ieStr_entries_def m assms(2))
  have b2: "decInformationElement_body mem v \<lparr>ptr = 24, len = 18\<rparr> =
      Inr (mem, v\<lparr>AuthParam := (AuthParam v)\<lparr>autn := Some \<lparr>ptr = 26, len = 16\<rparr>,
                       seqxorak := Some \<lparr>ptr = 26, len = 6\<rparr>,
                       amf := Some \<lparr>ptr = 32, len = 2\<rparr>,
                       mac := Some \<lparr>ptr = 34, len = 8\<rparr>\<rparr>\<rparr>,
           \<lparr>ptr = 42, len = 0\<rparr>)" for v
    by (simp add: decInformationElement_body_def index_def slice_from_def slice_to_def
        slice_range_def cap_def decAuthParamAUTN_def iei_defs ieStr_def ieStr_entries_def m
        assms(2))
  show "decInformationElement mem u \<lparr>ptr = 7, len = 35\<rparr> =
           Inr (mem,
                u\<lparr>AuthParam := (AuthParam u)\<lparr>rand := Some \<lparr>ptr = 8, len = 16\<rparr>,
                       autn := Some \<lparr>ptr = 26, len = 16\<rparr>,
                       seqxorak := Some \<lparr>ptr = 26, len = 6\<rparr>,
                       amf := Some \<lparr>ptr = 32, len = 2\<rparr>,
                       mac := Some \<lparr>ptr = 34, len = 8\<rparr>\<rparr>\<rparr>,
                \<lparr>ptr = 42, len = 0\<rparr>)"
  proof -
    let ?v = "u\<lparr>AuthParam := (AuthParam u)\<lparr>rand := Some \<lparr>ptr = 8, len = 16\<rparr>\<rparr>\<rparr>"
    have "decInformationElement mem u \<lparr>ptr = 7, len = 35\<rparr>
        = decInformationElement mem ?v \<lparr>ptr = 24, len = 18\<rparr>"
      by (rule decInformationElement_next [OF _ b1]) simp
    also have "\<dots> = decInformationElement mem
        (?v\<lparr>AuthParam := (AuthParam ?v)\<lparr>autn := Some \<lparr>ptr = 26, len = 16\<rparr>,
                       seqxorak := Some \<lparr>ptr = 26, len = 6\<rparr>,
                       amf := Some \<lparr>ptr = 32, len = 2\<rparr>,
                       mac := Some \<lparr>ptr = 34, len = 8\<rparr>\<rparr>\<rparr>) \<lparr>ptr = 42, len = 0\<rparr>"
      by (rule decInformationElement_next [OF _ b2]) simp
    also have "\<dots> = Inr (mem,
        ?v\<lparr>AuthParam := (AuthParam ?v)\<lparr>autn := Some \<lparr>ptr = 26, len = 16\<rparr>,
                       seqxorak := Some \<lparr>ptr = 26, len = 6\<rparr>,
                       amf := Some \<lparr>ptr = 32, len = 2\<rparr>,
                       mac := Some \<lparr>ptr = 34, len = 8\<rparr>\<rparr>\<rparr>, \<lparr>ptr = 42, len = 0\<rparr>)"
      by (rule decInformationElement_done) simp
    finally show ?thesis
      by simp
  qed
qed

lemma vector_double:
  assumes "elems mem (amf (AuthParam u)) = [a0, a1]"
    and "elems mem (seqxorak (AuthParam u)) = [s0, s1, s2, s3, s4, s5]"
  shows "\<exists>m. computeVector crypto_double mem u = Inr m
     \<and> mil_MACA m = Some [s0, s1, s2, s3, s4, s5, a0, a1]
     \<and> mil_RAND m = Some (elems mem (rand (AuthParam u)))
     \<and> mil_RES m = Some [0, 0, 0, 0, 0, 0, 0, 0]
     \<and> mil_CK m = Some zeros16 \<and> mil_IK m = Some zeros16"
proof -
  have "(ucast (drop_bit 8 (ucast a1 OR push_bit 8 (ucast a0) :: 16 word)) :: byte) = a0"
    by (rule bit_word_eqI) (auto simp: bit_simps dest: bit_imp_le_length)
  moreover have "(ucast (ucast a1 OR push_bit 8 (ucast a0) :: 16 word) :: byte) = a1"
    by (rule bit_word_eqI) (auto simp: bit_simps dest: bit_imp_le_length)
  ultimately show ?thesis
    using assms
    by (simp add: computeVector_def crypto_double_def milenage_double_def Uint16_def vals_def
        PutUint16_def)
qed


lemma Decode_message_AuthenticationRequest:
  assumes "index mem pdu 0 = Inr 0x56"
    and "decAuthenticationRequest lib mem (ue\<lparr>indent := indent ue + 1\<rparr>)
           \<lparr>ptr = ptr pdu + 1, len = len pdu - 1\<rparr> = Inr (mem', ue', pdu')"
  shows "Decode_message lib mem ue pdu =
     Inr (mem', ue'\<lparr>indent := indent ue' - 1, securityHeaderParsed := False\<rparr>, pdu', 0x56)"
proof -
  have "0 < len pdu"
    using assms(1) by (auto simp: index_def split: if_splits)
  then show ?thesis
    using assms
    by (simp add: Decode_message_def slice_from_def MessageTypeAuthenticationRequest_def)
qed

lemma auth_request_layout:
  "take 26 auth_request = [0x7e, 0x00, 0x56, 0x00, 0x02, 0x00, 0x00, 0x21] @ zeros16 @ [0x20, 0x10]"
  "length auth_request = 42"
  by (simp_all add: auth_request_def zeros16_def autn_example_def)

theorem decAuthenticationRequest_MAC_mismatch_witness:
  "decAuthenticationRequest crypto_double auth_request (ue_profile\<lparr>indent := 1\<rparr>)
       \<lparr>ptr = 3, len = 39\<rparr>
     = Inr (auth_request, ue_profile\<lparr>AuthParam := auth_params_parsed, indent := 1\<rparr>,
            \<lparr>ptr = 42, len = 0\<rparr>)
   \<and> elems auth_request (mac auth_params_parsed)
       = [0x88, 0x99, 0xAA, 0xBB, 0xCC, 0xDD, 0xEE, 0xFF]
   \<and> RESstar auth_params_parsed = RESstar (AuthParam ue_profile)
   \<and> Decode crypto_double auth_request ue_profile \<lparr>ptr = 0, len = 42\<rparr> 42
     = Inr (auth_request, ue_profile\<lparr>AuthParam := auth_params_parsed\<rparr>,
            \<lparr>ptr = 42, len = 0\<rparr>, 0x56)"
proof -
  let ?u = "ue_profile\<lparr>indent := 1\<rparr>"
  let ?u1 = "?u\<lparr>indent := indent ?u + 1\<rparr>"
  let ?u3 = "?u1\<lparr>AuthParam := (AuthParam ?u1)\<lparr>rand := Some \<lparr>ptr = 8, len = 16\<rparr>,
                       autn := Some \<lparr>ptr = 26, len = 16\<rparr>,
                       seqxorak := Some \<lparr>ptr = 26, len = 6\<rparr>,
                       amf := Some \<lparr>ptr = 32, len = 2\<rparr>,
                       mac := Some \<lparr>ptr = 34, len = 8\<rparr>\<rparr>\<rparr>"
  note L = request_layout [OF auth_request_layout]
  have p: "AuthParam ?u3 = auth_params_parsed"
    by (simp add: auth_params_parsed_def)
  have e: "elems auth_request (amf auth_params_parsed) = [0x66, 0x77]"
    "elems auth_request (seqxorak auth_params_parsed) = [0x00, 0x11, 0x22, 0x33, 0x44, 0x55]"
    "elems auth_request (mac auth_params_parsed) = [0x88, 0x99, 0xAA, 0xBB, 0xCC, 0xDD, 0xEE, 0xFF]"
    by (simp_all add: auth_params_parsed_def elems_def bytes_def auth_request_def zeros16_def
        autn_example_def)
  obtain m where m: "computeVector crypto_double auth_request (?u3\<lparr>indent := indent ?u3 - 1\<rparr>) = Inr m"
    and a: "mil_MACA m = Some [0x00, 0x11, 0x22, 0x33, 0x44, 0x55, 0x66, 0x77]"
    using vector_double [of auth_request "?u3\<lparr>indent := indent ?u3 - 1\<rparr>" "0x66" "0x77"
        "0x00" "0x11" "0x22" "0x33" "0x44" "0x55"] e
    by (auto simp: auth_params_parsed_def)
  have n: "elems auth_request (mac (AuthParam ?u3)) \<noteq> vals (mil_MACA m)"
    unfolding p e a by (simp add: vals_def)
  have r: "RESstar auth_params_parsed = RESstar (AuthParam ue_profile)"
    by (simp add: auth_params_parsed_def)
  have q: "?u3\<lparr>indent := indent ?u\<rparr> = ue_profile\<lparr>AuthParam := auth_params_parsed, indent := 1\<rparr>"
    by (simp add: auth_params_parsed_def)
  have d: "decAuthenticationRequest crypto_double auth_request ?u \<lparr>ptr = 3, len = 39\<rparr>
      = Inr (auth_request, ue_profile\<lparr>AuthParam := auth_params_parsed, indent := 1\<rparr>,
             \<lparr>ptr = 42, len = 0\<rparr>)"
    using decAuthenticationRequest_MAC_mismatch [OF L(1) L(2) L(3) m n] unfolding q by simp
  have i: "index auth_request \<lparr>ptr = 0, len = 42\<rparr> 1 = Inr 0"
    by (simp add: index_def auth_request_def)
  have t: "index auth_request \<lparr>ptr = 2, len = 40\<rparr> 0 = Inr 0x56"
    by (simp add: index_def auth_request_def)
  have u: "ue_profile\<lparr>indent := indent ue_profile + 1\<rparr> = ?u"
    by (simp add: ue_profile_def)
  have "Decode_message crypto_double auth_request ue_profile \<lparr>ptr = 2, len = 40\<rparr>
      = Inr (auth_request, ue_profile\<lparr>AuthParam := auth_params_parsed\<rparr>,
             \<lparr>ptr = 42, len = 0\<rparr>, 0x56)"
    using Decode_message_AuthenticationRequest [OF t, of crypto_double ue_profile auth_request
        "ue_profile\<lparr>AuthParam := auth_params_parsed, indent := 1\<rparr>" "\<lparr>ptr = 42, len = 0\<rparr>"]
      d
    unfolding u by (simp add: ue_profile_def)
  then have "Decode crypto_double auth_request ue_profile \<lparr>ptr = 0, len = 42\<rparr> 42
     = Inr (auth_request, ue_profile\<lparr>AuthParam := auth_params_parsed\<rparr>,
            \<lparr>ptr = 42, len = 0\<rparr>, 0x56)"
    using Decode_plain [OF i, of crypto_double ue_profile 42] by (simp add: numeral_2_eq_2)
  with d e(3) r show ?thesis
    by simp
qed


text \<open>
  For comparison, the request whose MAC verifies: \<^verbatim>\<open>Decode\<close> returns the same message
  type \<open>0x56\<close>; the two runs differ in \<^verbatim>\<open>RESstar\<close> only.
\<close>

lemma decAuthenticationRequest_match:
  assumes "decngKSI mem (ue\<lparr>indent := indent ue + 1\<rparr>) pdu = Inr (ue1, pdu1)"
    and "decABBA mem ue1 pdu1 = Inr (ue2, pdu2)"
    and "decInformationElement mem ue2 pdu2 = Inr (mem3, ue3, pdu3)"
    and "computeVector lib mem3 (ue3\<lparr>indent := indent ue3 - 1\<rparr>) = Inr m"
    and "DeepEqual mem3 (mac (AuthParam ue3)) (mil_MACA m)"
    and "ComputeRESstar (hmac_sha256 lib) (MCC ue3) (MNC ue3) (vals (mil_RAND m))
           (vals (mil_RES m)) (vals (mil_CK m)) (vals (mil_IK m)) = Inr r"
  shows "decAuthenticationRequest lib mem ue pdu =
     Inr (mem3, ue3\<lparr>AuthParam := (AuthParam ue3)\<lparr>RESstar := r\<rparr>, indent := indent ue\<rparr>, pdu3)"
  using assms by (simp add: decAuthenticationRequest_def)

lemma auth_request_verified_layout:
  "take 26 auth_request_verified
     = [0x7e, 0x00, 0x56, 0x00, 0x02, 0x00, 0x00, 0x21] @ zeros16 @ [0x20, 0x10]"
  "length auth_request_verified = 42"
  by (simp_all add: auth_request_verified_def zeros16_def)

lemma RESstar_double:
  "ComputeRESstar hmac_double 1 1 zeros16 [0, 0, 0, 0, 0, 0, 0, 0] zeros16 zeros16
     = Inr [0, 0, 0, 0, 0, 0, 0, 0, 0, 0, 0, 0, 0x20, 0x00, 0x67, 0x72]"
proof -
  have "annexA4_S 1 1 zeros16 [0, 0, 0, 0, 0, 0, 0, 0] =
      [0x6B] @ map of_char ''5G:mnc001.mcc001.3gppnetwork.org'' @ [0x00, 0x20]
      @ zeros16 @ [0x00, 0x10] @ [0, 0, 0, 0, 0, 0, 0, 0] @ [0x00, 0x08]"
    by (simp add: annexA4_S_def serving_network_name_1_1 length16_def zeros16_def)
  then show ?thesis
    by (simp add: ComputeRESstar_eq [of 1 1] hmac_double_def zeros16_def)
qed

lemma Decode_verified_request:
  "Decode crypto_double auth_request_verified ue_profile \<lparr>ptr = 0, len = 42\<rparr> 42
     = Inr (auth_request_verified,
            ue_profile\<lparr>AuthParam := auth_params_parsed
              \<lparr>RESstar := [0, 0, 0, 0, 0, 0, 0, 0, 0, 0, 0, 0, 0x20, 0x00, 0x67, 0x72]\<rparr>\<rparr>,
            \<lparr>ptr = 42, len = 0\<rparr>, 0x56)"
proof -
  let ?M = auth_request_verified
  let ?u = "ue_profile\<lparr>indent := 1\<rparr>"
  let ?u1 = "?u\<lparr>indent := indent ?u + 1\<rparr>"
  let ?u3 = "?u1\<lparr>AuthParam := (AuthParam ?u1)\<lparr>rand := Some \<lparr>ptr = 8, len = 16\<rparr>,
                       autn := Some \<lparr>ptr = 26, len = 16\<rparr>,
                       seqxorak := Some \<lparr>ptr = 26, len = 6\<rparr>,
                       amf := Some \<lparr>ptr = 32, len = 2\<rparr>,
                       mac := Some \<lparr>ptr = 34, len = 8\<rparr>\<rparr>\<rparr>"
  let ?r = "[0, 0, 0, 0, 0, 0, 0, 0, 0, 0, 0, 0, 0x20, 0x00, 0x67, 0x72] :: byte list"
  note L = request_layout [OF auth_request_verified_layout]
  have e: "elems ?M (amf auth_params_parsed) = [0x66, 0x77]"
    "elems ?M (seqxorak auth_params_parsed) = [0x00, 0x11, 0x22, 0x33, 0x44, 0x55]"
    "bytes ?M \<lparr>ptr = 34, len = 8\<rparr> = [0x00, 0x11, 0x22, 0x33, 0x44, 0x55, 0x66, 0x77]"
    "elems ?M (rand auth_params_parsed) = zeros16"
    by (simp_all add: auth_params_parsed_def elems_def bytes_def auth_request_verified_def
        zeros16_def)
  obtain m where m: "computeVector crypto_double ?M (?u3\<lparr>indent := indent ?u3 - 1\<rparr>) = Inr m"
    and a: "mil_MACA m = Some [0x00, 0x11, 0x22, 0x33, 0x44, 0x55, 0x66, 0x77]"
    and v: "mil_RAND m = Some zeros16" "mil_RES m = Some [0, 0, 0, 0, 0, 0, 0, 0]"
      "mil_CK m = Some zeros16" "mil_IK m = Some zeros16"
    using vector_double [of ?M "?u3\<lparr>indent := indent ?u3 - 1\<rparr>" "0x66" "0x77"
        "0x00" "0x11" "0x22" "0x33" "0x44" "0x55"] e
    by (auto simp: auth_params_parsed_def)
  have q: "DeepEqual ?M (mac (AuthParam ?u3)) (mil_MACA m)"
    by (simp add: DeepEqual_def a e(3))
  have c: "ComputeRESstar (hmac_sha256 crypto_double) (MCC ?u3) (MNC ?u3) (vals (mil_RAND m))
           (vals (mil_RES m)) (vals (mil_CK m)) (vals (mil_IK m)) = Inr ?r"
    using RESstar_double by (simp add: v vals_def crypto_double_def ue_profile_def)
  have d: "decAuthenticationRequest crypto_double ?M ?u \<lparr>ptr = 3, len = 39\<rparr>
      = Inr (?M, ue_profile\<lparr>AuthParam := auth_params_parsed\<lparr>RESstar := ?r\<rparr>, indent := 1\<rparr>,
             \<lparr>ptr = 42, len = 0\<rparr>)"
    using decAuthenticationRequest_match [OF L(1) L(2) L(3) m q c]
    by (simp add: auth_params_parsed_def)
  have i: "index ?M \<lparr>ptr = 0, len = 42\<rparr> 1 = Inr 0"
    by (simp add: index_def auth_request_verified_def)
  have t: "index ?M \<lparr>ptr = 2, len = 40\<rparr> 0 = Inr 0x56"
    by (simp add: index_def auth_request_verified_def)
  have u: "ue_profile\<lparr>indent := indent ue_profile + 1\<rparr> = ?u"
    by (simp add: ue_profile_def)
  have "Decode_message crypto_double ?M ue_profile \<lparr>ptr = 2, len = 40\<rparr>
      = Inr (?M, ue_profile\<lparr>AuthParam := auth_params_parsed\<lparr>RESstar := ?r\<rparr>\<rparr>,
             \<lparr>ptr = 42, len = 0\<rparr>, 0x56)"
    using Decode_message_AuthenticationRequest [OF t, of crypto_double ue_profile ?M
        "ue_profile\<lparr>AuthParam := auth_params_parsed\<lparr>RESstar := ?r\<rparr>, indent := 1\<rparr>"
        "\<lparr>ptr = 42, len = 0\<rparr>"] d
    unfolding u by (simp add: ue_profile_def)
  then show ?thesis
    using Decode_plain [OF i, of crypto_double ue_profile 42] by (simp add: numeral_2_eq_2)
qed

end
